theory Spec2Isabelle
  imports Complex_Main
begin

section \<open>Crypto Price ETL pipeline: \<^verbatim>\<open>main.py\<close>\<close>

text \<open>
  The program is three stages run once by a driver: \<^verbatim>\<open>extract_data\<close> (one call of
  \<^verbatim>\<open>requests.get\<close>), \<^verbatim>\<open>transform_data\<close> (a pandas DataFrame of five selected
  columns, renamed, plus a timestamp column) and \<^verbatim>\<open>load_data\<close> (\<^verbatim>\<open>DataFrame.to_csv\<close>).
  Each stage is a \<^verbatim>\<open>try\<close> block whose handler logs the exception and re-raises it.

  The embedding passes the state explicitly and returns exceptions as values
  (\<open>exn + 'a\<close>, \<open>Inl\<close> the exception). Everything the program reads from outside
  itself (the network, the clock, the file system, the platform constants) is a field of
  the record \<open>env\<close>; so is the part of the libraries that is floating point or that the
  program does not depend on.

  Outside the embedding: the two \<^verbatim>\<open>os.makedirs\<close> calls and \<^verbatim>\<open>logging.basicConfig\<close>,
  which run at import, before any stage (a run starts in the state they leave);
  exceptions that are no \<^verbatim>\<open>Exception\<close> (a keyboard interrupt), which no handler of the
  program catches; a failure of \<^verbatim>\<open>logging\<close> or \<^verbatim>\<open>print\<close> itself.
\<close>

subsection \<open>Python values, exceptions, log records\<close>

text \<open>
  What \<^verbatim>\<open>response.json()\<close> can return, and what a DataFrame cell holds. \<open>NaN\<close> is the
  float pandas puts where a value is missing. A dict is the list of its items; its keys are
  distinct, lookup is \<open>map_of\<close>.
\<close>

datatype pyval =
    PNone
  | PBool bool
  | PInt int
  | PFloat real
  | NaN
  | PStr string
  | PList "pyval list"
  | PDict "(string \<times> pyval) list"

text \<open>
  The exceptions (subclasses of \<^verbatim>\<open>Exception\<close>) the library calls of the program raise:
  \<^verbatim>\<open>requests.get\<close> a \<^verbatim>\<open>RequestException\<close>, \<^verbatim>\<open>raise_for_status\<close> an \<^verbatim>\<open>HTTPError\<close> (here
  with the status code), \<^verbatim>\<open>response.json()\<close> a \<^verbatim>\<open>JSONDecodeError\<close>, the DataFrame
  constructor a \<^verbatim>\<open>ValueError\<close> or \<^verbatim>\<open>TypeError\<close>, the file system an \<^verbatim>\<open>OSError\<close>.
\<close>

datatype exn =
    RequestException string
  | HTTPError nat
  | JSONDecodeError
  | ValueError string
  | TypeError string
  | OSError string

text \<open>
  A record of the log file. \<open>INFO m\<close> is \<^verbatim>\<open>logging.info(m)\<close>; \<open>ERROR m e\<close> is
  \<^verbatim>\<open>logging.error(f"m{e}")\<close>, the message text \<open>m\<close> followed by the exception formatted
  into it. The \<^verbatim>\<open>asctime\<close> prefix of the format string is not modelled.
\<close>

datatype log_record = INFO string | ERROR string exn

subsection \<open>The environment and the state\<close>

datatype request = GET string "(string \<times> pyval) list"

text \<open>
  A response as the program reads it: the status code, and what \<^verbatim>\<open>response.json()\<close>
  yields (\<open>None\<close> when the body is not well-formed JSON).
\<close>

record response =
  status_code :: nat
  body :: "pyval option"

record datetime =
  year :: nat
  month :: nat
  day :: nat
  hour :: nat
  minute :: nat
  second :: nat

text \<open>
  Writing a text to a path with \<^verbatim>\<open>to_csv\<close>: it succeeds; or the directory of the path
  does not exist, which pandas checks before it opens anything; or the open fails (the
  file is untouched); or a write fails after the open truncated the file and some prefix
  of the text was written.
\<close>

datatype io_outcome = Written | ParentMissing exn | OpenFails exn | WriteFails exn nat

record env =
  script_dir :: string
    \<comment> \<open>\<^verbatim>\<open>os.path.dirname(os.path.abspath(__file__))\<close>\<close>
  os_sep :: char
  os_linesep :: string
  http :: "nat \<Rightarrow> request \<Rightarrow> exn + response"
    \<comment> \<open>the outcome of the \<open>n\<close>-th call of \<^verbatim>\<open>requests.get\<close> (counted from 0)\<close>
  clock_datetime :: "nat \<Rightarrow> datetime"
    \<comment> \<open>the wall clock at its \<open>n\<close>-th reading, as \<^verbatim>\<open>datetime.now()\<close> returns it\<close>
  clock_time :: "nat \<Rightarrow> real"
    \<comment> \<open>the wall clock at its \<open>n\<close>-th reading, as \<^verbatim>\<open>time.time()\<close> returns it\<close>
  file_write :: "nat \<Rightarrow> string \<Rightarrow> io_outcome"
    \<comment> \<open>the outcome of writing to a path when \<^verbatim>\<open>open\<close> has been called \<open>n\<close> times
        for writing\<close>
  dtype_store :: "pyval list \<Rightarrow> pyval \<Rightarrow> pyval"
    \<comment> \<open>the value a DataFrame column holds for a value it was given, by the cells given
        for the whole column: pandas stores a column with one dtype (an integer beside a
        float or a missing value as a float, a null among numbers as \<open>NaN\<close>)\<close>
  pandas_other :: "pyval \<Rightarrow> string list \<Rightarrow> exn + (string \<Rightarrow> pyval) list"
    \<comment> \<open>the DataFrame constructor on data that is not a list of dicts: it raises, or
        builds some rows, each with a cell for every requested column\<close>
  format_row :: "pyval list list \<Rightarrow> pyval list \<Rightarrow> string list"
    \<comment> \<open>the texts \<^verbatim>\<open>to_csv\<close> writes for the cells of a row of a table (a number is
        formatted by the dtype of its column, a missing value is the empty string)\<close>
  format_2f :: "real \<Rightarrow> string"
    \<comment> \<open>Python's \<^verbatim>\<open>f"{x:.2f}"\<close>\<close>

record state =
  log :: "log_record list"
    \<comment> \<open>the records appended to the log file, oldest first\<close>
  files :: "string \<rightharpoonup> string"
    \<comment> \<open>the content of the other files, by path\<close>
  stdout :: "string list"
  sent :: "request list"
    \<comment> \<open>the calls of \<^verbatim>\<open>requests.get\<close> made so far\<close>
  ticks :: nat
    \<comment> \<open>how often the program has read the clock\<close>
  opens :: nat
    \<comment> \<open>how often \<^verbatim>\<open>open\<close> has been called for writing\<close>

definition logging_info :: "string \<Rightarrow> state \<Rightarrow> state" where
  "logging_info m s = s\<lparr>log := log s @ [INFO m]\<rparr>"

definition logging_error :: "string \<Rightarrow> exn \<Rightarrow> state \<Rightarrow> state" where
  "logging_error m e s = s\<lparr>log := log s @ [ERROR m e]\<rparr>"

definition print :: "string \<Rightarrow> state \<Rightarrow> state" where
  "print m s = s\<lparr>stdout := stdout s @ [m]\<rparr>"

definition time_time :: "env \<Rightarrow> state \<Rightarrow> real \<times> state" where
  "time_time env s = (clock_time env (ticks s), s\<lparr>ticks := Suc (ticks s)\<rparr>)"

definition datetime_now :: "env \<Rightarrow> state \<Rightarrow> datetime \<times> state" where
  "datetime_now env s = (clock_datetime env (ticks s), s\<lparr>ticks := Suc (ticks s)\<rparr>)"

text \<open>
  The handler every stage has:
  \<^verbatim>\<open>except Exception as e: logging.error(f"<m>{e}"); raise\<close>.
\<close>

definition except_log_raise :: "string \<Rightarrow> (exn + 'a) \<times> state \<Rightarrow> (exn + 'a) \<times> state" where
  "except_log_raise m r =
     (case r of
        (Inl e, s) \<Rightarrow> (Inl e, logging_error m e s)
      | (Inr v, s) \<Rightarrow> (Inr v, s))"

subsection \<open>Folder setup (lines 22 to 31)\<close>

definition os_path_join :: "env \<Rightarrow> string \<Rightarrow> string \<Rightarrow> string" where
  "os_path_join env a b =
     (if b \<noteq> [] \<and> hd b = os_sep env then b
      else if a = [] \<or> last a = os_sep env then a @ b
      else a @ [os_sep env] @ b)"

definition BASE_DIR :: "env \<Rightarrow> string" where
  "BASE_DIR env = script_dir env"

definition DATA_DIR :: "env \<Rightarrow> string" where
  "DATA_DIR env = os_path_join env (BASE_DIR env) ''data''"

definition LOG_DIR :: "env \<Rightarrow> string" where
  "LOG_DIR env = os_path_join env (BASE_DIR env) ''logs''"

definition log_file :: "env \<Rightarrow> string" where
  "log_file env = os_path_join env (LOG_DIR env) ''crypto_etl.log''"

subsection \<open>Extract (lines 39 to 57)\<close>

definition url :: string where
  "url = ''https://api.coingecko.com/api/v3/coins/markets''"

definition params :: "(string \<times> pyval) list" where
  "params =
     [(''vs_currency'', PStr ''usd''),
      (''order'', PStr ''market_cap_desc''),
      (''per_page'', PInt 10),
      (''page'', PInt 1),
      (''sparkline'', PStr ''false'')]"

definition requests_get ::
  "env \<Rightarrow> string \<Rightarrow> (string \<times> pyval) list \<Rightarrow> state \<Rightarrow> (exn + response) \<times> state" where
  "requests_get env u ps s =
     (http env (length (sent s)) (GET u ps), s\<lparr>sent := sent s @ [GET u ps]\<rparr>)"

text \<open>
  \<^verbatim>\<open>Response.raise_for_status\<close> raises for a client error (400 to 499) and for a server
  error (500 to 599), and for no other status.
\<close>

definition raise_for_status :: "response \<Rightarrow> exn + unit" where
  "raise_for_status r =
     (if 400 \<le> status_code r \<and> status_code r < 500 then Inl (HTTPError (status_code r))
      else if 500 \<le> status_code r \<and> status_code r < 600 then Inl (HTTPError (status_code r))
      else Inr ())"

definition response_json :: "response \<Rightarrow> exn + pyval" where
  "response_json r = (case body r of None \<Rightarrow> Inl JSONDecodeError | Some v \<Rightarrow> Inr v)"

text \<open>The \<^verbatim>\<open>try\<close> block of \<^verbatim>\<open>extract_data\<close>, lines 42 to 54.\<close>

definition extract_try :: "env \<Rightarrow> state \<Rightarrow> (exn + pyval) \<times> state" where
  "extract_try env s =
     (case requests_get env url params s of
        (Inl e, s1) \<Rightarrow> (Inl e, s1)
      | (Inr response, s1) \<Rightarrow>
          (case raise_for_status response of
             Inl e \<Rightarrow> (Inl e, s1)
           | Inr _ \<Rightarrow>
               (case response_json response of
                  Inl e \<Rightarrow> (Inl e, s1)
                | Inr data \<Rightarrow> (Inr data, logging_info ''Data extraction successful.'' s1))))"

definition extract_data :: "env \<Rightarrow> state \<Rightarrow> (exn + pyval) \<times> state" where
  "extract_data env s = except_log_raise ''Error in data extraction: '' (extract_try env s)"

subsection \<open>Transform (lines 60 to 83)\<close>

record frame =
  columns :: "string list"
  rows :: "pyval list list"

fun dict_items :: "pyval \<Rightarrow> (string \<times> pyval) list option" where
  "dict_items (PDict kvs) = Some kvs"
| "dict_items _ = None"

text \<open>The records of a list all of whose items are dicts.\<close>

fun as_records :: "pyval \<Rightarrow> (string \<times> pyval) list list option" where
  "as_records (PList items) = those (map dict_items items)"
| "as_records _ = None"

text \<open>The cell a record gives a column: its value under that key, \<open>NaN\<close> without one.\<close>

definition cell :: "(string \<times> pyval) list \<Rightarrow> string \<Rightarrow> pyval" where
  "cell r k = (case map_of r k of None \<Rightarrow> NaN | Some v \<Rightarrow> v)"

text \<open>
  The cell the DataFrame holds for a record and a column: \<open>NaN\<close> where the record has no
  value under that key; otherwise its value as the column stores it, which depends on
  what all the records give that column.
\<close>

definition stored :: "env \<Rightarrow> (string \<times> pyval) list list \<Rightarrow> (string \<times> pyval) list \<Rightarrow> string \<Rightarrow> pyval" where
  "stored env recs r k =
     (case map_of r k of
        None \<Rightarrow> NaN
      | Some v \<Rightarrow> dtype_store env (map (\<lambda>r'. cell r' k) recs) v)"

text \<open>
  \<^verbatim>\<open>pd.DataFrame(data, columns=cols)\<close>. On a list of dicts (the empty list too) it never
  raises: one row per dict, in the order of the list, the cells those of the requested
  columns.
\<close>

definition DataFrame :: "env \<Rightarrow> pyval \<Rightarrow> string list \<Rightarrow> exn + frame" where
  "DataFrame env data cols =
     (case as_records data of
        Some recs \<Rightarrow> Inr \<lparr>columns = cols, rows = map (\<lambda>r. map (stored env recs r) cols) recs\<rparr>
      | None \<Rightarrow>
          (case pandas_other env data cols of
             Inl e \<Rightarrow> Inl e
           | Inr fs \<Rightarrow> Inr \<lparr>columns = cols, rows = map (\<lambda>f. map f cols) fs\<rparr>))"

text \<open>\<^verbatim>\<open>df.rename(columns=m, inplace=True)\<close>: a name that is no key of \<open>m\<close> stays.\<close>

definition rename :: "(string \<times> string) list \<Rightarrow> frame \<Rightarrow> frame" where
  "rename m df =
     df\<lparr>columns := map (\<lambda>c. case map_of m c of None \<Rightarrow> c | Some c' \<Rightarrow> c') (columns df)\<rparr>"

text \<open>
  \<^verbatim>\<open>df[name] = v\<close> for a scalar \<open>v\<close>: the column \<open>name\<close> holds \<open>v\<close> in every row; a new
  column is appended as the last one.
\<close>

definition setitem :: "string \<Rightarrow> pyval \<Rightarrow> frame \<Rightarrow> frame" where
  "setitem name v df =
     (if name \<in> set (columns df)
      then df\<lparr>rows := map (\<lambda>row. map (\<lambda>(c, x). if c = name then v else x) (zip (columns df) row))
                          (rows df)\<rparr>
      else df\<lparr>columns := columns df @ [name], rows := map (\<lambda>row. row @ [v]) (rows df)\<rparr>)"

definition digit :: "nat \<Rightarrow> char" where
  "digit n = ''0123456789'' ! (n mod 10)"

text \<open>\<^verbatim>\<open>str(n)\<close> for a natural number: its decimal digits.\<close>

fun str_nat :: "nat \<Rightarrow> string" where
  "str_nat n = (if n < 10 then [digit n] else str_nat (n div 10) @ [digit n])"

declare str_nat.simps [simp del]

text \<open>A text filled with zeros on the left up to a width; a longer text stays as it is.\<close>

definition zfill :: "nat \<Rightarrow> string \<Rightarrow> string" where
  "zfill w t = replicate (w - length t) (CHR ''0'') @ t"

definition pad2 :: "nat \<Rightarrow> string" where
  "pad2 n = zfill 2 (str_nat n)"

text \<open>
  \<^verbatim>\<open>d.strftime("%Y-%m-%d %H:%M:%S")\<close>: the year in decimal, the other fields as two
  digits, zero-padded. The C library formats the year: glibc writes a year below 1000
  with fewer than four digits, others pad it; from the year 1000 on all write its four
  digits.
\<close>

definition strftime :: "datetime \<Rightarrow> string" where
  "strftime d =
     str_nat (year d) @ ''-'' @ pad2 (month d) @ ''-'' @ pad2 (day d) @ '' '' @
     pad2 (hour d) @ '':'' @ pad2 (minute d) @ '':'' @ pad2 (second d)"

definition in_columns :: "string list" where
  "in_columns = [''id'', ''symbol'', ''current_price'', ''market_cap'', ''total_volume'']"

definition renaming :: "(string \<times> string) list" where
  "renaming =
     [(''id'', ''crypto_name''),
      (''symbol'', ''symbol''),
      (''current_price'', ''price_usd''),
      (''market_cap'', ''market_cap_usd''),
      (''total_volume'', ''volume_usd'')]"

text \<open>The \<^verbatim>\<open>try\<close> block of \<^verbatim>\<open>transform_data\<close>, lines 63 to 79.\<close>

definition transform_try :: "env \<Rightarrow> pyval \<Rightarrow> state \<Rightarrow> (exn + frame) \<times> state" where
  "transform_try env data s =
     (case DataFrame env data in_columns of
        Inl e \<Rightarrow> (Inl e, s)
      | Inr df \<Rightarrow>
          (let df1 = rename renaming df;
               (now, s1) = datetime_now env s;
               df2 = setitem ''timestamp'' (PStr (strftime now)) df1
           in (Inr df2, logging_info ''Data transformation successful.'' s1)))"

definition transform_data :: "env \<Rightarrow> pyval \<Rightarrow> state \<Rightarrow> (exn + frame) \<times> state" where
  "transform_data env data s =
     except_log_raise ''Error in data transformation: '' (transform_try env data s)"

subsection \<open>Load (lines 86 to 95)\<close>

text \<open>
  A field as \<^verbatim>\<open>csv.writer\<close> writes it with the default minimal quoting: in double quotes,
  with every double quote inside doubled, when it holds a comma, a double quote or a line
  break; as it is otherwise.
\<close>

definition csv_field :: "string \<Rightarrow> string" where
  "csv_field f =
     (if list_ex (\<lambda>c. c = CHR '','' \<or> c = CHR 0x22 \<or> c = CHR 0x0A \<or> c = CHR 0x0D) f
      then [CHR 0x22] @ concat (map (\<lambda>c. if c = CHR 0x22 then [c, c] else [c]) f) @ [CHR 0x22]
      else f)"

fun join :: "string \<Rightarrow> string list \<Rightarrow> string" where
  "join sep [] = []"
| "join sep [x] = x"
| "join sep (x # y # ys) = x @ sep @ join sep (y # ys)"

definition csv_line :: "env \<Rightarrow> string list \<Rightarrow> string" where
  "csv_line env texts = join '','' (map csv_field texts) @ os_linesep env"

text \<open>
  The text of \<^verbatim>\<open>df.to_csv(path, index=False)\<close>: the line of the column names, then one
  line per row, in order.
\<close>

definition csv_text :: "env \<Rightarrow> frame \<Rightarrow> string" where
  "csv_text env df =
     csv_line env (columns df) @
     concat (map (\<lambda>row. csv_line env (format_row env (rows df) row)) (rows df))"

text \<open>
  \<^verbatim>\<open>df.to_csv(path, index=False)\<close> checks that the directory of \<open>path\<close> exists, then
  opens \<open>path\<close> in mode \<^verbatim>\<open>"w"\<close>: the file is created or truncated, then the text is
  written.
\<close>

definition to_csv :: "env \<Rightarrow> frame \<Rightarrow> string \<Rightarrow> state \<Rightarrow> (exn + unit) \<times> state" where
  "to_csv env df path s =
     (case file_write env (opens s) path of
        ParentMissing e \<Rightarrow> (Inl e, s)
      | OpenFails e \<Rightarrow> (Inl e, s\<lparr>opens := Suc (opens s)\<rparr>)
      | WriteFails e n \<Rightarrow>
          (Inl e, s\<lparr>opens := Suc (opens s), files := (files s)(path \<mapsto> take n (csv_text env df))\<rparr>)
      | Written \<Rightarrow>
          (Inr (), s\<lparr>opens := Suc (opens s), files := (files s)(path \<mapsto> csv_text env df)\<rparr>))"

definition output_file :: "env \<Rightarrow> string" where
  "output_file env = os_path_join env (DATA_DIR env) ''crypto_data.csv''"

text \<open>The \<^verbatim>\<open>try\<close> block of \<^verbatim>\<open>load_data\<close>, lines 89 to 92.\<close>

definition load_try :: "env \<Rightarrow> frame \<Rightarrow> state \<Rightarrow> (exn + unit) \<times> state" where
  "load_try env df s =
     (case to_csv env df (output_file env) s of
        (Inl e, s1) \<Rightarrow> (Inl e, s1)
      | (Inr _, s1) \<Rightarrow>
          (Inr (),
           print (''Data successfully saved to '' @ output_file env)
             (logging_info (''Data loading successful. Data saved to '' @ output_file env) s1)))"

definition load_data :: "env \<Rightarrow> frame \<Rightarrow> state \<Rightarrow> (exn + unit) \<times> state" where
  "load_data env df s = except_log_raise ''Error in data loading: '' (load_try env df s)"

subsection \<open>The driver (lines 98 to 113)\<close>

text \<open>
  An exception of a stage leaves \<^verbatim>\<open>etl_process\<close> at the call: nothing after it runs.
\<close>

definition etl_process :: "env \<Rightarrow> state \<Rightarrow> (exn + unit) \<times> state" where
  "etl_process env s =
     (let (start_time, s0) = time_time env s;
          s1 = logging_info ''ETL process started.'' s0
      in case extract_data env s1 of
           (Inl e, s2) \<Rightarrow> (Inl e, s2)
         | (Inr data, s2) \<Rightarrow>
             (case transform_data env data s2 of
                (Inl e, s3) \<Rightarrow> (Inl e, s3)
              | (Inr df, s3) \<Rightarrow>
                  (case load_data env df s3 of
                     (Inl e, s4) \<Rightarrow> (Inl e, s4)
                   | (Inr _, s4) \<Rightarrow>
                       (let (end_time, s5) = time_time env s4
                        in (Inr (),
                            logging_info
                              (''ETL process completed in '' @
                               format_2f env (end_time - start_time) @ '' seconds.'')
                              s5)))))"

subsection \<open>What the properties are stated with\<close>

text \<open>The fields of an output row, in order.\<close>

definition price_row_fields :: "string list" where
  "price_row_fields =
     [''crypto_name'', ''symbol'', ''price_usd'', ''market_cap_usd'', ''volume_usd'', ''timestamp'']"

text \<open>
  The ranges of the fields of a Python \<^verbatim>\<open>datetime\<close>, with a year of four digits (the
  clock of a run reads a year from 1970 on).
\<close>

definition valid_datetime :: "datetime \<Rightarrow> bool" where
  "valid_datetime d =
     (1000 \<le> year d \<and> year d \<le> 9999 \<and> 1 \<le> month d \<and> month d \<le> 12 \<and>
      1 \<le> day d \<and> day d \<le> 31 \<and> hour d < 24 \<and> minute d < 60 \<and> second d < 60)"

text \<open>
  A text of the shape \<^verbatim>\<open>YYYY-MM-DD HH:MM:SS\<close>: a digit wherever the pattern below has a
  \<open>9\<close>, the character of the pattern elsewhere, and nothing more.
\<close>

definition timestamp_pattern :: "string \<Rightarrow> bool" where
  "timestamp_pattern t =
     list_all2 (\<lambda>p c. if p = CHR ''9'' then c \<in> set ''0123456789'' else c = p)
       ''9999-99-99 99:99:99'' t"

text \<open>The state in which \<^verbatim>\<open>etl_process\<close> calls \<^verbatim>\<open>extract_data\<close> (after lines 100 and 101).\<close>

definition started :: "env \<Rightarrow> state \<Rightarrow> state" where
  "started env s = logging_info ''ETL process started.'' (snd (time_time env s))"

text \<open>
  A concrete environment and state to evaluate the program in: one outcome \<open>h\<close> for
  every request, one outcome \<open>w\<close> for every file written, a fixed clock, POSIX platform
  constants, and a snapshot left by an earlier run. The records are the one of the
  specification's scenario, with and without its \<^verbatim>\<open>total_volume\<close>, and a second one;
  their values are strings and integers.

  The two functions of pandas are given on what the examples hold. A column of integers
  is stored as given when no value is missing or a float, and its integers as floats
  otherwise; a string is stored as given. \<^verbatim>\<open>to_csv\<close> writes a string as it is, an
  integer in decimal, and a missing value as the empty text. On other values (a float to
  write, a null, a list) the two functions below are placeholders, and no example uses
  them there.
\<close>

definition bitcoin :: "(string \<times> pyval) list" where
  "bitcoin =
     [(''id'', PStr ''bitcoin''), (''symbol'', PStr ''btc''), (''current_price'', PInt 65000),
      (''market_cap'', PInt 1200000000000), (''total_volume'', PInt 30000000000)]"

definition bitcoin_no_volume :: "(string \<times> pyval) list" where
  "bitcoin_no_volume =
     [(''id'', PStr ''bitcoin''), (''symbol'', PStr ''btc''), (''current_price'', PInt 65000),
      (''market_cap'', PInt 1200000000000)]"

definition ethereum :: "(string \<times> pyval) list" where
  "ethereum =
     [(''id'', PStr ''ethereum''), (''symbol'', PStr ''eth''), (''current_price'', PInt 3500),
      (''market_cap'', PInt 420000000000), (''total_volume'', PInt 15000000000)]"

definition example_dtype_store :: "pyval list \<Rightarrow> pyval \<Rightarrow> pyval" where
  "example_dtype_store col v =
     (case v of
        PInt n \<Rightarrow>
          (if list_all (\<lambda>c. case c of PInt _ \<Rightarrow> True | PFloat _ \<Rightarrow> True | NaN \<Rightarrow> True | _ \<Rightarrow> False) col \<and>
              list_ex (\<lambda>c. case c of PFloat _ \<Rightarrow> True | NaN \<Rightarrow> True | _ \<Rightarrow> False) col
           then PFloat (of_int n) else PInt n)
      | _ \<Rightarrow> v)"

definition example_csv_value :: "pyval \<Rightarrow> string" where
  "example_csv_value v =
     (case v of
        PStr t \<Rightarrow> t
      | PInt n \<Rightarrow> (if n < 0 then ''-'' @ str_nat (nat (- n)) else str_nat (nat n))
      | _ \<Rightarrow> [])"

definition example_env :: "(exn + response) \<Rightarrow> io_outcome \<Rightarrow> env" where
  "example_env h w =
     \<lparr>script_dir = ''/app'', os_sep = CHR ''/'', os_linesep = [CHR 0x0A],
      http = (\<lambda>n req. h),
      clock_datetime = (\<lambda>n. \<lparr>year = 2024, month = 5, day = 17, hour = 9, minute = 30, second = 0\<rparr>),
      clock_time = (\<lambda>n. real n),
      file_write = (\<lambda>n path. w),
      dtype_store = example_dtype_store,
      pandas_other = (\<lambda>data cols. Inl (ValueError ''DataFrame constructor not properly called!'')),
      format_row = (\<lambda>table row. map example_csv_value row),
      format_2f = (\<lambda>x. ''0.00'')\<rparr>"

definition example_state :: state where
  "example_state =
     \<lparr>log = [], files = [''/app/data/crypto_data.csv'' \<mapsto> ''old''], stdout = [], sent = [],
      ticks = 0, opens = 0\<rparr>"

section \<open>Properties\<close>

subsection \<open>The stages, step by step\<close>

lemma as_records_PList: "as_records (PList (map PDict recs)) = Some recs"
  by (induction recs) simp_all

lemma DataFrame_records:
  "DataFrame env (PList (map PDict recs)) cols =
     Inr \<lparr>columns = cols, rows = map (\<lambda>r. map (stored env recs r) cols) recs\<rparr>"
  unfolding DataFrame_def as_records_PList by simp

lemma DataFrame_columns: "DataFrame env data cols = Inr df \<Longrightarrow> columns df = cols"
  by (auto simp: DataFrame_def split: option.splits sum.splits)

lemma DataFrame_row_length:
  "DataFrame env data cols = Inr df \<Longrightarrow> row \<in> set (rows df) \<Longrightarrow> length row = length cols"
  by (auto simp: DataFrame_def split: option.splits sum.splits)

lemma except_log_raise_Inl [simp]:
  "except_log_raise m (Inl e, s) = (Inl e, logging_error m e s)"
  by (simp add: except_log_raise_def)

lemma except_log_raise_Inr [simp]: "except_log_raise m (Inr v, s) = (Inr v, s)"
  by (simp add: except_log_raise_def)

lemma except_log_raise_eq_Inr:
  "except_log_raise m r = (Inr v, s) \<longleftrightarrow> r = (Inr v, s)"
  by (cases r) (auto simp: except_log_raise_def split: sum.splits)

lemma except_log_raise_eq_Inl:
  "except_log_raise m r = (Inl e, s') \<longleftrightarrow> (\<exists>s. r = (Inl e, s) \<and> s' = logging_error m e s)"
  by (cases r) (auto simp: except_log_raise_def split: sum.splits)

lemma transform_try_Inr:
  "transform_try env data s = (Inr df2, s') \<Longrightarrow>
   \<exists>df. DataFrame env data in_columns = Inr df \<and>
     df2 = \<lparr>columns = price_row_fields,
            rows = map (\<lambda>row. row @ [PStr (strftime (clock_datetime env (ticks s)))]) (rows df)\<rparr> \<and>
     s' = logging_info ''Data transformation successful.'' (s\<lparr>ticks := Suc (ticks s)\<rparr>)"
  apply (auto simp: transform_try_def datetime_now_def Let_def split: sum.splits)
  apply (frule DataFrame_columns)
  apply (simp add: setitem_def rename_def renaming_def in_columns_def price_row_fields_def)
  done

lemma transform_try_DataFrame_Inl:
  "DataFrame env data in_columns = Inl e \<Longrightarrow> transform_try env data s = (Inl e, s)"
  by (simp add: transform_try_def)

lemma transform_try_records:
  "transform_try env (PList (map PDict recs)) s =
     (Inr \<lparr>columns = price_row_fields,
           rows = map (\<lambda>r. map (stored env recs r) in_columns @ [PStr (strftime (clock_datetime env (ticks s)))]) recs\<rparr>,
      logging_info ''Data transformation successful.'' (s\<lparr>ticks := Suc (ticks s)\<rparr>))"
  unfolding transform_try_def DataFrame_records
  by (simp add: datetime_now_def setitem_def rename_def
      renaming_def in_columns_def price_row_fields_def comp_def)

lemma digit_in_digits: "digit n \<in> set ''0123456789''"
proof -
  have "n mod 10 < length ''0123456789''" by simp
  then show ?thesis unfolding digit_def by (rule nth_mem)
qed

lemma str_nat_1: "n < 10 \<Longrightarrow> str_nat n = [digit n]"
  by (simp add: str_nat.simps)

lemma str_nat_2: "10 \<le> n \<Longrightarrow> n < 100 \<Longrightarrow> str_nat n = [digit (n div 10), digit n]"
  by (subst str_nat.simps) (simp add: str_nat_1)

lemma str_nat_3:
  "100 \<le> n \<Longrightarrow> n < 1000 \<Longrightarrow> str_nat n = [digit (n div 100), digit (n div 10), digit n]"
proof -
  assume a: "100 \<le> n" "n < 1000"
  then have "10 \<le> n div 10" "n div 10 < 100" by simp_all
  then have "str_nat (n div 10) = [digit (n div 10 div 10), digit (n div 10)]"
    by (rule str_nat_2)
  moreover have "n div 10 div 10 = n div 100" by (simp add: div_mult2_eq[symmetric])
  ultimately show ?thesis using a by (subst str_nat.simps) simp
qed

lemma str_nat_4:
  "1000 \<le> n \<Longrightarrow> n < 10000 \<Longrightarrow>
   str_nat n = [digit (n div 1000), digit (n div 100), digit (n div 10), digit n]"
proof -
  assume a: "1000 \<le> n" "n < 10000"
  then have "100 \<le> n div 10" "n div 10 < 1000" by simp_all
  then have "str_nat (n div 10) = [digit (n div 10 div 100), digit (n div 10 div 10), digit (n div 10)]"
    by (rule str_nat_3)
  moreover have "n div 10 div 10 = n div 100" "n div 10 div 100 = n div 1000"
    by (simp_all add: div_mult2_eq[symmetric])
  ultimately show ?thesis using a by (subst str_nat.simps) simp
qed

lemma digit_zero: "digit 0 = CHR ''0''"
  by (simp add: digit_def)

lemma pad2_eq: "n < 100 \<Longrightarrow> pad2 n = [digit (n div 10), digit n]"
proof (cases "n < 10")
  case True
  then show ?thesis by (simp add: pad2_def zfill_def str_nat_1 digit_zero)
next
  case False
  moreover assume "n < 100"
  ultimately show ?thesis by (simp add: pad2_def zfill_def str_nat_2)
qed

lemma strftime_eq:
  assumes "valid_datetime d"
  shows "strftime d =
    [digit (year d div 1000), digit (year d div 100), digit (year d div 10), digit (year d),
     CHR ''-'', digit (month d div 10), digit (month d),
     CHR ''-'', digit (day d div 10), digit (day d),
     CHR '' '', digit (hour d div 10), digit (hour d),
     CHR '':'', digit (minute d div 10), digit (minute d),
     CHR '':'', digit (second d div 10), digit (second d)]"
proof -
  from assms have "1000 \<le> year d" "year d < 10000" "month d < 100" "day d < 100" "hour d < 100"
    "minute d < 100" "second d < 100"
    by (simp_all add: valid_datetime_def)
  then show ?thesis by (simp add: strftime_def pad2_eq str_nat_4)
qed

lemma strftime_pattern: "valid_datetime d \<Longrightarrow> timestamp_pattern (strftime d)"
  using digit_in_digits by (simp add: strftime_eq timestamp_pattern_def)

lemma started_fields [simp]:
  "log (started env s) = log s @ [INFO ''ETL process started.'']"
  "files (started env s) = files s"
  "stdout (started env s) = stdout s"
  "sent (started env s) = sent s"
  "ticks (started env s) = Suc (ticks s)"
  "opens (started env s) = opens s"
  by (simp_all add: started_def time_time_def logging_info_def)

lemma extract_try_request_fails:
  "http env (length (sent s)) (GET url params) = Inl e \<Longrightarrow>
   extract_try env s = (Inl e, s\<lparr>sent := sent s @ [GET url params]\<rparr>)"
  by (simp add: extract_try_def requests_get_def)

lemma extract_try_status_fails:
  "http env (length (sent s)) (GET url params) = Inr r \<Longrightarrow> raise_for_status r = Inl e \<Longrightarrow>
   extract_try env s = (Inl e, s\<lparr>sent := sent s @ [GET url params]\<rparr>)"
  by (simp add: extract_try_def requests_get_def)

lemma extract_try_json_fails:
  "http env (length (sent s)) (GET url params) = Inr r \<Longrightarrow> raise_for_status r = Inr () \<Longrightarrow>
   response_json r = Inl e \<Longrightarrow>
   extract_try env s = (Inl e, s\<lparr>sent := sent s @ [GET url params]\<rparr>)"
  by (simp add: extract_try_def requests_get_def)

lemma extract_try_ok:
  "http env (length (sent s)) (GET url params) = Inr r \<Longrightarrow> raise_for_status r = Inr () \<Longrightarrow>
   response_json r = Inr data \<Longrightarrow>
   extract_try env s =
     (Inr data, logging_info ''Data extraction successful.'' (s\<lparr>sent := sent s @ [GET url params]\<rparr>))"
  by (simp add: extract_try_def requests_get_def)

lemma extract_try_frame:
  "extract_try env s = (r, s') \<Longrightarrow>
   sent s' = sent s @ [GET url params] \<and> files s' = files s \<and> opens s' = opens s \<and>
   stdout s' = stdout s \<and> ticks s' = ticks s"
  by (auto simp: extract_try_def requests_get_def logging_info_def split: sum.splits)

lemma raise_for_status_Inl:
  "400 \<le> status_code r \<Longrightarrow> status_code r < 600 \<Longrightarrow>
   raise_for_status r = Inl (HTTPError (status_code r))"
  by (simp add: raise_for_status_def)

lemma raise_for_status_Inr:
  "status_code r < 400 \<or> 600 \<le> status_code r \<Longrightarrow> raise_for_status r = Inr ()"
  by (auto simp: raise_for_status_def)

lemma to_csv_Written:
  "file_write env (opens s) path = Written \<Longrightarrow>
   to_csv env df path s =
     (Inr (), s\<lparr>opens := Suc (opens s), files := (files s)(path \<mapsto> csv_text env df)\<rparr>)"
  by (simp add: to_csv_def)

lemma load_try_Written:
  "file_write env (opens s) (output_file env) = Written \<Longrightarrow>
   load_try env df s =
     (Inr (),
      print (''Data successfully saved to '' @ output_file env)
        (logging_info (''Data loading successful. Data saved to '' @ output_file env)
          (s\<lparr>opens := Suc (opens s),
             files := (files s)(output_file env \<mapsto> csv_text env df)\<rparr>)))"
  by (simp add: load_try_def to_csv_Written)

lemma load_try_OpenFails:
  "file_write env (opens s) (output_file env) = OpenFails e \<Longrightarrow>
   load_try env df s = (Inl e, s\<lparr>opens := Suc (opens s)\<rparr>)"
  by (simp add: load_try_def to_csv_def)

lemma load_try_WriteFails:
  "file_write env (opens s) (output_file env) = WriteFails e n \<Longrightarrow>
   load_try env df s =
     (Inl e, s\<lparr>opens := Suc (opens s),
               files := (files s)(output_file env \<mapsto> take n (csv_text env df))\<rparr>)"
  by (simp add: load_try_def to_csv_def)

lemma load_try_Inr:
  "load_try env df s = (Inr u, s') \<Longrightarrow> file_write env (opens s) (output_file env) = Written"
  by (auto simp: load_try_def to_csv_def split: io_outcome.splits)

lemma load_try_ParentMissing:
  "file_write env (opens s) (output_file env) = ParentMissing e \<Longrightarrow>
   load_try env df s = (Inl e, s)"
  by (simp add: load_try_def to_csv_def)

lemma etl_process_extract_Inl:
  "extract_data env (started env s) = (Inl e, s1) \<Longrightarrow> etl_process env s = (Inl e, s1)"
  by (simp add: etl_process_def started_def split_beta Let_def)

lemma etl_process_transform_Inl:
  "extract_data env (started env s) = (Inr data, s1) \<Longrightarrow>
   transform_data env data s1 = (Inl e, s2) \<Longrightarrow> etl_process env s = (Inl e, s2)"
  by (simp add: etl_process_def started_def split_beta Let_def)

lemma etl_process_load_Inl:
  "extract_data env (started env s) = (Inr data, s1) \<Longrightarrow>
   transform_data env data s1 = (Inr df, s2) \<Longrightarrow>
   load_data env df s2 = (Inl e, s3) \<Longrightarrow> etl_process env s = (Inl e, s3)"
  by (simp add: etl_process_def started_def split_beta Let_def)

lemma etl_process_load_Inr:
  "extract_data env (started env s) = (Inr data, s1) \<Longrightarrow>
   transform_data env data s1 = (Inr df, s2) \<Longrightarrow>
   load_data env df s2 = (Inr u, s3) \<Longrightarrow>
   etl_process env s =
     (Inr (),
      logging_info
        (''ETL process completed in '' @
         format_2f env (clock_time env (ticks s3) - clock_time env (ticks s)) @ '' seconds.'')
        (s3\<lparr>ticks := Suc (ticks s3)\<rparr>))"
  by (simp add: etl_process_def started_def split_beta Let_def time_time_def)

lemma load_data_Written:
  "file_write env (opens s) (output_file env) = Written \<Longrightarrow>
   load_data env df s =
     (Inr (),
      print (''Data successfully saved to '' @ output_file env)
        (logging_info (''Data loading successful. Data saved to '' @ output_file env)
          (s\<lparr>opens := Suc (opens s),
             files := (files s)(output_file env \<mapsto> csv_text env df)\<rparr>)))"
  by (simp add: load_data_def load_try_Written)

lemma load_data_Inr:
  "load_data env df s = (Inr u, s') \<Longrightarrow> file_write env (opens s) (output_file env) = Written"
  by (auto simp: load_data_def except_log_raise_eq_Inr dest: load_try_Inr)

lemma csv_line_price_row_fields:
  "csv_line env price_row_fields =
     ''crypto_name,symbol,price_usd,market_cap_usd,volume_usd,timestamp'' @ os_linesep env"
  by (simp add: csv_line_def price_row_fields_def csv_field_def)

lemma extract_data_ok:
  assumes "http env (length (sent s)) (GET url params) = Inr r"
    and "raise_for_status r = Inr ()" and "body r = Some data"
  shows "extract_data env (started env s) =
     (Inr data, logging_info ''Data extraction successful.''
        ((started env s)\<lparr>sent := sent s @ [GET url params]\<rparr>))"
proof -
  have "http env (length (sent (started env s))) (GET url params) = Inr r"
    using assms(1) by simp
  moreover have "response_json r = Inr data" by (simp add: response_json_def assms(3))
  ultimately show ?thesis
    using extract_try_ok[of env "started env s" r data] assms(2)
    by (simp add: extract_data_def)
qed

lemma extract_data_raises:
  assumes "http env (length (sent s)) (GET url params) = Inl e \<or>
     (\<exists>r. http env (length (sent s)) (GET url params) = Inr r \<and> raise_for_status r = Inl e) \<or>
     (\<exists>r. http env (length (sent s)) (GET url params) = Inr r \<and> raise_for_status r = Inr () \<and>
          response_json r = Inl e)"
  shows "extract_data env s =
     (Inl e, s\<lparr>sent := sent s @ [GET url params],
               log := log s @ [ERROR ''Error in data extraction: '' e]\<rparr>)"
proof -
  from assms have "extract_try env s = (Inl e, s\<lparr>sent := sent s @ [GET url params]\<rparr>)"
    using extract_try_request_fails extract_try_status_fails extract_try_json_fails by blast
  then show ?thesis by (simp add: extract_data_def logging_error_def)
qed

lemma etl_process_extract_raises:
  assumes "http env (length (sent s)) (GET url params) = Inl e \<or>
     (\<exists>r. http env (length (sent s)) (GET url params) = Inr r \<and> raise_for_status r = Inl e) \<or>
     (\<exists>r. http env (length (sent s)) (GET url params) = Inr r \<and> raise_for_status r = Inr () \<and>
          response_json r = Inl e)"
  shows "etl_process env s =
     (Inl e, s\<lparr>ticks := Suc (ticks s), sent := sent s @ [GET url params],
               log := log s @ [INFO ''ETL process started.'',
                               ERROR ''Error in data extraction: '' e]\<rparr>)"
proof -
  from assms have "http env (length (sent (started env s))) (GET url params) = Inl e \<or>
     (\<exists>r. http env (length (sent (started env s))) (GET url params) = Inr r \<and>
          raise_for_status r = Inl e) \<or>
     (\<exists>r. http env (length (sent (started env s))) (GET url params) = Inr r \<and>
          raise_for_status r = Inr () \<and> response_json r = Inl e)"
    by simp
  from extract_data_raises[OF this] show ?thesis
    by (simp add: etl_process_extract_Inl started_def time_time_def logging_info_def)
qed

lemma transform_data_raises:
  "DataFrame env data in_columns = Inl e \<Longrightarrow>
   transform_data env data s = (Inl e, logging_error ''Error in data transformation: '' e s)"
  by (simp add: transform_data_def transform_try_DataFrame_Inl)

lemma transform_data_records:
  "transform_data env (PList (map PDict recs)) s =
     (Inr \<lparr>columns = price_row_fields,
           rows = map (\<lambda>r. map (stored env recs r) in_columns @
                           [PStr (strftime (clock_datetime env (ticks s)))]) recs\<rparr>,
      logging_info ''Data transformation successful.'' (s\<lparr>ticks := Suc (ticks s)\<rparr>))"
  by (simp add: transform_data_def transform_try_records)

lemma extract_data_frame:
  "extract_data env s = (r, s') \<Longrightarrow> files s' = files s \<and> opens s' = opens s \<and> stdout s' = stdout s"
  by (cases "extract_try env s")
     (auto simp: extract_data_def except_log_raise_def logging_error_def
           dest: extract_try_frame split: sum.splits)

lemma transform_data_frame:
  "transform_data env data s = (r, s') \<Longrightarrow>
   files s' = files s \<and> opens s' = opens s \<and> stdout s' = stdout s \<and> sent s' = sent s"
  by (auto simp: transform_data_def transform_try_def except_log_raise_def logging_error_def
        logging_info_def datetime_now_def Let_def split: sum.splits)

lemma load_data_raises:
  assumes "file_write env (opens s) (output_file env) = ParentMissing e \<or>
           file_write env (opens s) (output_file env) = OpenFails e \<or>
           (\<exists>n. file_write env (opens s) (output_file env) = WriteFails e n)"
  shows "fst (load_data env df s) = Inl e \<and>
         log (snd (load_data env df s)) = log s @ [ERROR ''Error in data loading: '' e]"
  using assms
  by (auto simp: load_data_def load_try_ParentMissing load_try_OpenFails load_try_WriteFails
      logging_error_def)

lemma load_data_files_unopened:
  assumes "file_write env (opens s) (output_file env) = ParentMissing e \<or>
           file_write env (opens s) (output_file env) = OpenFails e"
  shows "files (snd (load_data env df s)) = files s"
  using assms
  by (auto simp: load_data_def load_try_ParentMissing load_try_OpenFails logging_error_def)

lemma load_data_files_WriteFails:
  assumes "file_write env (opens s) (output_file env) = WriteFails e n"
  shows "files (snd (load_data env df s)) =
         (files s)(output_file env \<mapsto> take n (csv_text env df))"
  using assms by (simp add: load_data_def load_try_WriteFails logging_error_def)

lemma etl_process_Inl_logged:
  assumes "etl_process env s = (Inl e, s')"
  shows "\<exists>m. last (log s') = ERROR m e"
proof -
  obtain r1 s1 where x: "extract_data env (started env s) = (r1, s1)"
    by (cases "extract_data env (started env s)")
  show ?thesis
  proof (cases r1)
    case (Inl e1)
    with x assms have "e1 = e" "s' = s1" by (simp_all add: etl_process_extract_Inl)
    with x Inl show ?thesis
      by (auto simp: extract_data_def except_log_raise_eq_Inl logging_error_def)
  next
    case (Inr data)
    obtain r2 s2 where t: "transform_data env data s1 = (r2, s2)"
      by (cases "transform_data env data s1")
    show ?thesis
    proof (cases r2)
      case (Inl e2)
      with x Inr t assms have "e2 = e" "s' = s2" by (simp_all add: etl_process_transform_Inl)
      with t Inl show ?thesis
        by (auto simp: transform_data_def except_log_raise_eq_Inl logging_error_def)
    next
      case df: (Inr df)
      obtain r3 s3 where l: "load_data env df s2 = (r3, s3)"
        by (cases "load_data env df s2")
      show ?thesis
      proof (cases r3)
        case (Inl e3)
        with x Inr t df l assms have "e3 = e" "s' = s3" by (simp_all add: etl_process_load_Inl)
        with l Inl show ?thesis
          by (auto simp: load_data_def except_log_raise_eq_Inl logging_error_def)
      next
        case u: (Inr u)
        with x Inr t df l assms show ?thesis by (simp add: etl_process_load_Inr)
      qed
    qed
  qed
qed

lemma etl_process_records:
  assumes "http env (length (sent s)) (GET url params) = Inr r"
    and "raise_for_status r = Inr ()"
    and "body r = Some (PList (map PDict recs))"
  shows "\<exists>s1 s2. extract_data env (started env s) = (Inr (PList (map PDict recs)), s1) \<and>
     transform_data env (PList (map PDict recs)) s1 =
       (Inr \<lparr>columns = price_row_fields,
             rows = map (\<lambda>r. map (stored env recs r) in_columns @
                             [PStr (strftime (clock_datetime env (Suc (ticks s))))]) recs\<rparr>, s2) \<and>
     opens s2 = opens s \<and> files s2 = files s \<and> stdout s2 = stdout s"
  by (simp add: extract_data_ok[OF assms] transform_data_records logging_info_def)

lemma etl_process_after_transform:
  assumes "extract_data env (started env s) = (Inr data, s1)"
    and "transform_data env data s1 = (Inr df, s2)"
  shows "fst (etl_process env s) = fst (load_data env df s2) \<and>
    files (snd (etl_process env s)) = files (snd (load_data env df s2)) \<and>
    stdout (snd (etl_process env s)) = stdout (snd (load_data env df s2)) \<and>
    opens (snd (etl_process env s)) = opens (snd (load_data env df s2))"
proof -
  obtain r3 s3 where l: "load_data env df s2 = (r3, s3)" by (cases "load_data env df s2")
  show ?thesis
  proof (cases r3)
    case (Inl e)
    with etl_process_load_Inl[OF assms] l show ?thesis by simp
  next
    case (Inr u)
    with etl_process_load_Inr[OF assms] l show ?thesis by (simp add: logging_info_def)
  qed
qed

lemma etl_process_records_Written:
  assumes "http env (length (sent s)) (GET url params) = Inr r"
    and "raise_for_status r = Inr ()"
    and "body r = Some (PList (map PDict recs))"
    and "file_write env (opens s) (output_file env) = Written"
  shows "fst (etl_process env s) = Inr () \<and>
    files (snd (etl_process env s)) =
      (files s)(output_file env \<mapsto>
        csv_text env \<lparr>columns = price_row_fields,
             rows = map (\<lambda>r. map (stored env recs r) in_columns @
                             [PStr (strftime (clock_datetime env (Suc (ticks s))))]) recs\<rparr>) \<and>
    stdout (snd (etl_process env s)) =
      stdout s @ [''Data successfully saved to '' @ output_file env]"
proof -
  from etl_process_records[OF assms(1-3)] obtain s1 s2 where
    x: "extract_data env (started env s) = (Inr (PList (map PDict recs)), s1)"
    and t: "transform_data env (PList (map PDict recs)) s1 =
       (Inr \<lparr>columns = price_row_fields,
             rows = map (\<lambda>r. map (stored env recs r) in_columns @
                             [PStr (strftime (clock_datetime env (Suc (ticks s))))]) recs\<rparr>, s2)"
    and o: "opens s2 = opens s" and f: "files s2 = files s" and p: "stdout s2 = stdout s"
    by blast
  from assms(4) o have w: "file_write env (opens s2) (output_file env) = Written" by simp
  show ?thesis
    by (simp add: etl_process_load_Inr[OF x t load_data_Written[OF w]]
        logging_info_def print_def f p)
qed

subsection \<open>The program in the example environment\<close>

lemma example_valid_datetime: "valid_datetime (clock_datetime (example_env h w) n)"
  by (simp add: valid_datetime_def example_env_def)

lemma example_strftime:
  "strftime (clock_datetime (example_env h w) n) = ''2024-05-17 09:30:00''"
  unfolding strftime_eq[OF example_valid_datetime]
  by (simp add: example_env_def digit_def)

lemma example_output_file: "output_file (example_env h w) = ''/app/data/crypto_data.csv''"
  by (simp add: output_file_def DATA_DIR_def BASE_DIR_def os_path_join_def example_env_def)

lemma example_stored_bitcoin:
  "map (stored (example_env h w) [bitcoin] bitcoin) in_columns =
     [PStr ''bitcoin'', PStr ''btc'', PInt 65000, PInt 1200000000000, PInt 30000000000]"
  by (simp add: stored_def cell_def bitcoin_def in_columns_def example_env_def
      example_dtype_store_def)

lemma example_stored_no_volume:
  "map (stored (example_env h w) [bitcoin_no_volume] bitcoin_no_volume) in_columns =
     [PStr ''bitcoin'', PStr ''btc'', PInt 65000, PInt 1200000000000, NaN]"
  by (simp add: stored_def cell_def bitcoin_no_volume_def in_columns_def example_env_def
      example_dtype_store_def)

lemma example_stored_two:
  "map (stored (example_env h w) [bitcoin, ethereum] bitcoin) in_columns =
     [PStr ''bitcoin'', PStr ''btc'', PInt 65000, PInt 1200000000000, PInt 30000000000]"
  "map (stored (example_env h w) [bitcoin, ethereum] ethereum) in_columns =
     [PStr ''ethereum'', PStr ''eth'', PInt 3500, PInt 420000000000, PInt 15000000000]"
  by (simp_all add: stored_def cell_def bitcoin_def ethereum_def in_columns_def example_env_def
      example_dtype_store_def)

lemma example_transform:
  "transform_data (example_env h w) (PList [PDict bitcoin]) example_state =
     (Inr \<lparr>columns = price_row_fields,
           rows = [[PStr ''bitcoin'', PStr ''btc'', PInt 65000, PInt 1200000000000,
                    PInt 30000000000, PStr ''2024-05-17 09:30:00'']]\<rparr>,
      example_state\<lparr>log := [INFO ''Data transformation successful.''], ticks := 1\<rparr>)"
proof -
  have "PList [PDict bitcoin] = PList (map PDict [bitcoin])" by simp
  then show ?thesis
    by (simp only: transform_data_records example_strftime)
       (simp add: example_stored_bitcoin example_state_def logging_info_def)
qed

lemma example_transform_two:
  "transform_data (example_env h w) (PList [PDict bitcoin, PDict ethereum]) example_state =
     (Inr \<lparr>columns = price_row_fields,
           rows = [[PStr ''bitcoin'', PStr ''btc'', PInt 65000, PInt 1200000000000,
                    PInt 30000000000, PStr ''2024-05-17 09:30:00''],
                   [PStr ''ethereum'', PStr ''eth'', PInt 3500, PInt 420000000000,
                    PInt 15000000000, PStr ''2024-05-17 09:30:00'']]\<rparr>,
      example_state\<lparr>log := [INFO ''Data transformation successful.''], ticks := 1\<rparr>)"
proof -
  have "PList [PDict bitcoin, PDict ethereum] = PList (map PDict [bitcoin, ethereum])" by simp
  then show ?thesis
    by (simp only: transform_data_records example_strftime)
       (simp add: example_stored_two example_state_def logging_info_def)
qed

lemma example_str_nat:
  "str_nat 65000 = ''65000''" "str_nat 1200000000000 = ''1200000000000''"
  "str_nat 30000000000 = ''30000000000''"
  by (simp_all add: str_nat.simps digit_def)

lemma example_csv_bitcoin:
  "csv_text (example_env h w)
     \<lparr>columns = price_row_fields,
      rows = [[PStr ''bitcoin'', PStr ''btc'', PInt 65000, PInt 1200000000000,
               PInt 30000000000, PStr ''2024-05-17 09:30:00'']]\<rparr> =
   ''crypto_name,symbol,price_usd,market_cap_usd,volume_usd,timestamp'' @ [CHR 0x0A] @
   ''bitcoin,btc,65000,1200000000000,30000000000,2024-05-17 09:30:00'' @ [CHR 0x0A]"
  by (simp add: csv_text_def csv_line_def csv_field_def price_row_fields_def example_env_def
      example_csv_value_def example_str_nat)

subsection \<open>A record without a required field\<close>

text \<open>
  Claim C1 says that a record lacking one of the five required fields makes the
  Transformer fail and keeps the Writer from running. The program has no such check:
  the DataFrame constructor fills the missing cell with \<open>NaN\<close>. For the record of the
  specification's scenario without its \<^verbatim>\<open>total_volume\<close> the Transformer returns a row
  with \<open>NaN\<close> in that column, the run succeeds, and the Writer has printed that it saved
  the file.
\<close>

theorem missing_total_volume_not_a_failure:
  "map_of bitcoin_no_volume ''total_volume'' = None \<and>
   fst (transform_data
          (example_env (Inr \<lparr>status_code = 200, body = Some (PList [PDict bitcoin_no_volume])\<rparr>) Written)
          (PList [PDict bitcoin_no_volume]) example_state) =
     Inr \<lparr>columns = price_row_fields,
          rows = [[PStr ''bitcoin'', PStr ''btc'', PInt 65000, PInt 1200000000000, NaN,
                   PStr ''2024-05-17 09:30:00'']]\<rparr> \<and>
   fst (etl_process
          (example_env (Inr \<lparr>status_code = 200, body = Some (PList [PDict bitcoin_no_volume])\<rparr>) Written)
          example_state) = Inr () \<and>
   stdout (snd (etl_process
          (example_env (Inr \<lparr>status_code = 200, body = Some (PList [PDict bitcoin_no_volume])\<rparr>) Written)
          example_state)) = [''Data successfully saved to /app/data/crypto_data.csv'']"
proof -
  let ?r = "\<lparr>status_code = 200, body = Some (PList [PDict bitcoin_no_volume])\<rparr>"
  let ?env = "example_env (Inr ?r) Written"
  have m: "map_of bitcoin_no_volume ''total_volume'' = None"
    by (simp add: bitcoin_no_volume_def)
  have l: "PList [PDict bitcoin_no_volume] = PList (map PDict [bitcoin_no_volume])" by simp
  have t: "fst (transform_data ?env (PList [PDict bitcoin_no_volume]) example_state) =
     Inr \<lparr>columns = price_row_fields,
          rows = [[PStr ''bitcoin'', PStr ''btc'', PInt 65000, PInt 1200000000000, NaN,
                   PStr ''2024-05-17 09:30:00'']]\<rparr>"
    unfolding l transform_data_records
    by (simp add: example_strftime example_stored_no_volume)
  have h: "http ?env (length (sent example_state)) (GET url params) = Inr ?r"
    by (simp add: example_env_def)
  have s: "raise_for_status ?r = Inr ()" by (simp add: raise_for_status_def)
  have b: "body ?r = Some (PList (map PDict [bitcoin_no_volume]))" by simp
  have w: "file_write ?env (opens example_state) (output_file ?env) = Written"
    by (simp add: example_env_def)
  have p: "stdout example_state = []" by (simp add: example_state_def)
  from etl_process_records_Written[OF h s b w]
  have "fst (etl_process ?env example_state) = Inr () \<and>
    stdout (snd (etl_process ?env example_state)) =
      [''Data successfully saved to /app/data/crypto_data.csv'']"
    by (simp add: example_output_file p)
  with m t show ?thesis by blast
qed

text \<open>
  Claim C1, as amended. For every list of records, also one holding a record that lacks
  one of the five required fields, the Transformer succeeds with one row per record; the
  row of such a record (the \<open>i\<close>-th) holds \<open>NaN\<close> in the column of the missing field
  (the \<open>j\<close>-th); and in a run whose request delivered that list the Writer is invoked
  on those rows: the run ends with the outcome of the Writer and with what the Writer
  did to the files and the standard output.
\<close>

theorem missing_field_becomes_NaN:
  assumes "http env (length (sent s)) (GET url params) = Inr r"
    and "status_code r < 400 \<or> 600 \<le> status_code r"
    and "body r = Some (PList (map PDict recs))"
    and "i < length recs" and "j < length in_columns"
    and "map_of (recs ! i) (in_columns ! j) = None"
  shows "(\<exists>df s'. transform_data env (PList (map PDict recs)) s0 = (Inr df, s') \<and>
       length (rows df) = length recs \<and> rows df ! i ! j = NaN) \<and>
    (\<exists>s1 df s2. extract_data env (started env s) = (Inr (PList (map PDict recs)), s1) \<and>
       transform_data env (PList (map PDict recs)) s1 = (Inr df, s2) \<and>
       rows df ! i ! j = NaN \<and>
       fst (etl_process env s) = fst (load_data env df s2) \<and>
       files (snd (etl_process env s)) = files (snd (load_data env df s2)) \<and>
       stdout (snd (etl_process env s)) = stdout (snd (load_data env df s2)))"
proof -
  have n: "map (\<lambda>r. map (stored env recs r) in_columns @ [ts]) recs ! i ! j = NaN" for ts
  proof -
    have "(map (stored env recs (recs ! i)) in_columns @ [ts]) ! j =
        stored env recs (recs ! i) (in_columns ! j)"
      using assms(5) by (simp add: nth_append)
    also have "\<dots> = NaN" by (simp add: stored_def assms(6))
    finally show ?thesis using assms(4) by simp
  qed
  have a: "\<exists>df s'. transform_data env (PList (map PDict recs)) s0 = (Inr df, s') \<and>
       length (rows df) = length recs \<and> rows df ! i ! j = NaN"
    by (simp add: transform_data_records n)
  from etl_process_records[OF assms(1) raise_for_status_Inr[OF assms(2)] assms(3)]
  obtain s1 s2 where
    x: "extract_data env (started env s) = (Inr (PList (map PDict recs)), s1)"
    and t: "transform_data env (PList (map PDict recs)) s1 =
       (Inr \<lparr>columns = price_row_fields,
             rows = map (\<lambda>r. map (stored env recs r) in_columns @
                             [PStr (strftime (clock_datetime env (Suc (ticks s))))]) recs\<rparr>, s2)"
    by blast
  from etl_process_after_transform[OF x t] x t n a show ?thesis by fastforce
qed

theorem missing_field_becomes_NaN_witness:
  "map_of ([bitcoin_no_volume] ! 0) (in_columns ! 4) = None \<and>
   in_columns ! 4 = ''total_volume'' \<and>
   (\<exists>df s'. transform_data
        (example_env (Inr \<lparr>status_code = 200, body = Some (PList [PDict bitcoin_no_volume])\<rparr>) Written)
        (PList [PDict bitcoin_no_volume]) example_state = (Inr df, s') \<and>
      length (rows df) = 1 \<and> rows df ! 0 ! 4 = NaN) \<and>
   (\<exists>df s2. rows df ! 0 ! 4 = NaN \<and>
      fst (etl_process
        (example_env (Inr \<lparr>status_code = 200, body = Some (PList [PDict bitcoin_no_volume])\<rparr>) Written)
        example_state) =
      fst (load_data
        (example_env (Inr \<lparr>status_code = 200, body = Some (PList [PDict bitcoin_no_volume])\<rparr>) Written)
        df s2))"
proof -
  let ?r = "\<lparr>status_code = 200, body = Some (PList [PDict bitcoin_no_volume])\<rparr>"
  let ?env = "example_env (Inr ?r) Written"
  have h: "http ?env (length (sent example_state)) (GET url params) = Inr ?r"
    by (simp add: example_env_def)
  have s: "status_code ?r < 400 \<or> 600 \<le> status_code ?r" by simp
  have b: "body ?r = Some (PList (map PDict [bitcoin_no_volume]))" by simp
  have i: "0 < length [bitcoin_no_volume]" by simp
  have j: "4 < length in_columns" by (simp add: in_columns_def)
  have k: "in_columns ! 4 = ''total_volume''" by (simp add: in_columns_def)
  have m: "map_of ([bitcoin_no_volume] ! 0) (in_columns ! 4) = None"
    by (simp add: k bitcoin_no_volume_def)
  from missing_field_becomes_NaN[OF h s b i j m, of example_state]
  have "(\<exists>df s'. transform_data ?env (PList [PDict bitcoin_no_volume]) example_state = (Inr df, s') \<and>
      length (rows df) = 1 \<and> rows df ! 0 ! 4 = NaN) \<and>
   (\<exists>df s2. rows df ! 0 ! 4 = NaN \<and>
      fst (etl_process ?env example_state) = fst (load_data ?env df s2))"
    by simp blast
  with k m show ?thesis by blast
qed

subsection \<open>The rows and the columns of the Transformer\<close>

text \<open>
  Claim C2. Whenever the Transformer accepts its input, it has read the clock exactly
  once, the \<^verbatim>\<open>timestamp\<close> field of every output row is the text of that one reading,
  and that text has the shape \<^verbatim>\<open>YYYY-MM-DD HH:MM:SS\<close> (the reading being a datetime with
  a year of four digits).
\<close>

theorem timestamp_sampled_once:
  assumes "transform_data env data s = (Inr df, s')"
    and "valid_datetime (clock_datetime env (ticks s))"
  shows "ticks s' = Suc (ticks s) \<and>
    (\<forall>row \<in> set (rows df).
       map_of (zip (columns df) row) ''timestamp'' =
         Some (PStr (strftime (clock_datetime env (ticks s))))) \<and>
    timestamp_pattern (strftime (clock_datetime env (ticks s)))"
proof -
  from assms(1) have "transform_try env data s = (Inr df, s')"
    by (simp add: transform_data_def except_log_raise_eq_Inr)
  then obtain df0 where d: "DataFrame env data in_columns = Inr df0"
    and df: "df = \<lparr>columns = price_row_fields,
            rows = map (\<lambda>row. row @ [PStr (strftime (clock_datetime env (ticks s)))]) (rows df0)\<rparr>"
    and s': "s' = logging_info ''Data transformation successful.'' (s\<lparr>ticks := Suc (ticks s)\<rparr>)"
    using transform_try_Inr by blast
  have t: "ticks s' = Suc (ticks s)" by (simp add: s' logging_info_def)
  have r: "map_of (zip (columns df) row) ''timestamp'' =
         Some (PStr (strftime (clock_datetime env (ticks s))))" if "row \<in> set (rows df)" for row
  proof -
    from that obtain row0 where r0: "row0 \<in> set (rows df0)"
      and row: "row = row0 @ [PStr (strftime (clock_datetime env (ticks s)))]"
      by (auto simp: df)
    from DataFrame_row_length[OF d r0] have "length row0 = 5" by (simp add: in_columns_def)
    then obtain a b c d e where "row0 = [a, b, c, d, e]"
      by (auto simp: length_Suc_conv eval_nat_numeral)
    then show ?thesis by (simp add: row df price_row_fields_def)
  qed
  from t r strftime_pattern[OF assms(2)] show ?thesis by blast
qed

theorem timestamp_sampled_once_witness:
  "valid_datetime (clock_datetime (example_env (Inl (RequestException ''unreachable'')) Written)
     (ticks example_state)) \<and>
   map_of (zip price_row_fields
       [PStr ''bitcoin'', PStr ''btc'', PInt 65000, PInt 1200000000000,
        PInt 30000000000, PStr ''2024-05-17 09:30:00''])
     ''timestamp'' = Some (PStr ''2024-05-17 09:30:00'') \<and>
   map_of (zip price_row_fields
       [PStr ''ethereum'', PStr ''eth'', PInt 3500, PInt 420000000000,
        PInt 15000000000, PStr ''2024-05-17 09:30:00''])
     ''timestamp'' = Some (PStr ''2024-05-17 09:30:00'') \<and>
   timestamp_pattern ''2024-05-17 09:30:00''"
proof -
  let ?env = "example_env (Inl (RequestException ''unreachable'')) Written"
  have v: "valid_datetime (clock_datetime ?env (ticks example_state))"
    by (rule example_valid_datetime)
  have st: "strftime (clock_datetime ?env (ticks example_state)) = ''2024-05-17 09:30:00''"
    by (rule example_strftime)
  from timestamp_sampled_once[OF example_transform_two v] v show ?thesis
    by (simp add: st)
qed

text \<open>
  Claim C3. On every list of records the Transformer succeeds with exactly one row per
  record, and the rows are in the order of the records: the row at a position is built
  from the record at that position (its five selected cells, as their columns store
  them, then the timestamp).
\<close>

theorem transform_data_one_row_per_record:
  "\<exists>df s'. transform_data env (PList (map PDict recs)) s = (Inr df, s') \<and>
     length (rows df) = length recs \<and>
     rows df = map (\<lambda>r. map (stored env recs r) in_columns @
                          [PStr (strftime (clock_datetime env (ticks s)))]) recs"
  by (simp add: transform_data_def transform_try_records)

text \<open>
  Claim C4. Whenever the Transformer accepts its input, the columns of its output are
  exactly \<^verbatim>\<open>crypto_name\<close>, \<^verbatim>\<open>symbol\<close>, \<^verbatim>\<open>price_usd\<close>, \<^verbatim>\<open>market_cap_usd\<close>,
  \<^verbatim>\<open>volume_usd\<close>, \<^verbatim>\<open>timestamp\<close>, none more and none fewer, and the file the Writer
  then writes starts with the header line that lists them in this order.
\<close>

theorem output_columns_exact:
  assumes "transform_data env data s = (Inr df, s1)"
    and "file_write env (opens s1) (output_file env) = Written"
  shows "columns df =
      [''crypto_name'', ''symbol'', ''price_usd'', ''market_cap_usd'', ''volume_usd'', ''timestamp''] \<and>
    set (columns df) =
      {''crypto_name'', ''symbol'', ''price_usd'', ''market_cap_usd'', ''volume_usd'', ''timestamp''} \<and>
    (\<exists>lines. files (snd (load_data env df s1)) (output_file env) =
       Some (''crypto_name,symbol,price_usd,market_cap_usd,volume_usd,timestamp'' @
             os_linesep env @ lines))"
proof -
  from assms(1) have "transform_try env data s = (Inr df, s1)"
    by (simp add: transform_data_def except_log_raise_eq_Inr)
  then have c: "columns df = price_row_fields"
    using transform_try_Inr by fastforce
  have "csv_text env df = csv_line env price_row_fields @
     concat (map (\<lambda>row. csv_line env (format_row env (rows df) row)) (rows df))"
    by (simp add: csv_text_def c)
  then have "\<exists>lines. csv_text env df =
     ''crypto_name,symbol,price_usd,market_cap_usd,volume_usd,timestamp'' @ os_linesep env @ lines"
    by (simp add: csv_line_price_row_fields)
  moreover have "files (snd (load_data env df s1)) (output_file env) = Some (csv_text env df)"
    by (simp add: load_data_Written[OF assms(2)] print_def logging_info_def)
  ultimately show ?thesis
    using c by (auto simp: price_row_fields_def)
qed

theorem output_columns_exact_witness:
  "columns \<lparr>columns = price_row_fields,
           rows = [[PStr ''bitcoin'', PStr ''btc'', PInt 65000, PInt 1200000000000,
                    PInt 30000000000, PStr ''2024-05-17 09:30:00'']]\<rparr> =
     [''crypto_name'', ''symbol'', ''price_usd'', ''market_cap_usd'', ''volume_usd'', ''timestamp''] \<and>
   (\<exists>lines. files (snd (load_data (example_env (Inl (RequestException ''unreachable'')) Written)
       \<lparr>columns = price_row_fields,
        rows = [[PStr ''bitcoin'', PStr ''btc'', PInt 65000, PInt 1200000000000,
                 PInt 30000000000, PStr ''2024-05-17 09:30:00'']]\<rparr>
       (example_state\<lparr>log := [INFO ''Data transformation successful.''], ticks := 1\<rparr>)))
       ''/app/data/crypto_data.csv'' =
     Some (''crypto_name,symbol,price_usd,market_cap_usd,volume_usd,timestamp'' @ [CHR 0x0A] @ lines))"
proof -
  let ?env = "example_env (Inl (RequestException ''unreachable'')) Written"
  let ?s1 = "example_state\<lparr>log := [INFO ''Data transformation successful.''], ticks := 1\<rparr>"
  have w: "file_write ?env (opens ?s1) (output_file ?env) = Written"
    by (simp add: example_env_def)
  have l: "os_linesep ?env = [CHR 0x0A]" by (simp add: example_env_def)
  from output_columns_exact[OF example_transform w] show ?thesis
    by (simp add: example_output_file l)
qed

subsection \<open>Failures\<close>

text \<open>
  Claim C5 says that the previous snapshot is unchanged whenever any stage fails. It is
  not when the Writer fails after it has opened the destination: the open in mode
  \<^verbatim>\<open>"w"\<close> has truncated the file. A run in which the first write fails (no space is
  left) ends with that exception and leaves the snapshot empty.
\<close>

theorem write_failure_truncates_snapshot:
  "files example_state ''/app/data/crypto_data.csv'' = Some ''old'' \<and>
   fst (etl_process
          (example_env (Inr \<lparr>status_code = 200, body = Some (PList [PDict bitcoin])\<rparr>)
             (WriteFails (OSError ''No space left on device'') 0))
          example_state) = Inl (OSError ''No space left on device'') \<and>
   files (snd (etl_process
          (example_env (Inr \<lparr>status_code = 200, body = Some (PList [PDict bitcoin])\<rparr>)
             (WriteFails (OSError ''No space left on device'') 0))
          example_state)) ''/app/data/crypto_data.csv'' = Some []"
proof -
  let ?r = "\<lparr>status_code = 200, body = Some (PList [PDict bitcoin])\<rparr>"
  let ?n = "OSError ''No space left on device''"
  let ?env = "example_env (Inr ?r) (WriteFails ?n 0)"
  have f: "files example_state ''/app/data/crypto_data.csv'' = Some ''old''"
    by (simp add: example_state_def)
  have h: "http ?env (length (sent example_state)) (GET url params) = Inr ?r"
    by (simp add: example_env_def)
  have s: "raise_for_status ?r = Inr ()" by (simp add: raise_for_status_def)
  have b: "body ?r = Some (PList (map PDict [bitcoin]))" by simp
  from etl_process_records[OF h s b] obtain s1 df s2 where
    x: "extract_data ?env (started ?env example_state) = (Inr (PList (map PDict [bitcoin])), s1)"
    and t: "transform_data ?env (PList (map PDict [bitcoin])) s1 = (Inr df, s2)"
    and o: "opens s2 = opens example_state" and g: "files s2 = files example_state" by blast
  have w: "file_write ?env (opens s2) (output_file ?env) = WriteFails ?n 0"
    by (simp add: example_env_def)
  then have w3: "file_write ?env (opens s2) (output_file ?env) = ParentMissing ?n \<or>
       file_write ?env (opens s2) (output_file ?env) = OpenFails ?n \<or>
       (\<exists>n. file_write ?env (opens s2) (output_file ?env) = WriteFails ?n n)" by blast
  from etl_process_after_transform[OF x t]
  have "fst (etl_process ?env example_state) = fst (load_data ?env df s2)"
    and "files (snd (etl_process ?env example_state)) = files (snd (load_data ?env df s2))"
    by simp_all
  with load_data_raises[OF w3, of df] load_data_files_WriteFails[OF w, of df] g
  have "fst (etl_process ?env example_state) = Inl ?n"
    and "files (snd (etl_process ?env example_state)) ''/app/data/crypto_data.csv'' = Some []"
    by (simp_all add: example_output_file)
  with f show ?thesis by blast
qed

text \<open>
  Claim C5, as amended. A failure of any stage is logged at ERROR level with the
  exception that caused it, where it is detected, and reaches the caller of
  \<^verbatim>\<open>etl_process\<close> as that same exception; nothing runs after it. The previous snapshot
  is unchanged after a failure of the Fetcher or of the Transformer, where the Writer is
  not invoked, and after a failure of the Writer before or at the open; after a write
  that fails once the file is open, the file holds what had been written of the new text.
  The five parts: an exception of the request, of \<^verbatim>\<open>raise_for_status\<close> or of
  \<^verbatim>\<open>response.json()\<close> ends the run in the state of the start plus the request and the
  two log records; an exception of the DataFrame constructor ends it in the state after
  the extraction plus the ERROR record, the files unchanged and no file opened; a missing
  directory or a failing open ends it with the ERROR record as the last one and the files
  unchanged; a failing write ends it with the ERROR record as the last one and a prefix
  of the new text in the file; and whenever the run ends with an exception, the last log
  record is the ERROR record of that exception.
\<close>

theorem stage_failure_logged_and_propagated:
  "(http env (length (sent s)) (GET url params) = Inl e \<or>
     (\<exists>r. http env (length (sent s)) (GET url params) = Inr r \<and> raise_for_status r = Inl e) \<or>
     (\<exists>r. http env (length (sent s)) (GET url params) = Inr r \<and> raise_for_status r = Inr () \<and>
          response_json r = Inl e) \<longrightarrow>
      etl_process env s =
        (Inl e, s\<lparr>ticks := Suc (ticks s), sent := sent s @ [GET url params],
                  log := log s @ [INFO ''ETL process started.'',
                                  ERROR ''Error in data extraction: '' e]\<rparr>)) \<and>
   (extract_data env (started env s) = (Inr data, s1) \<and>
      DataFrame env data in_columns = Inl e \<longrightarrow>
      etl_process env s =
        (Inl e, s1\<lparr>log := log s1 @ [ERROR ''Error in data transformation: '' e]\<rparr>) \<and>
      files s1 = files s \<and> opens s1 = opens s \<and> stdout s1 = stdout s) \<and>
   (extract_data env (started env s) = (Inr data, s1) \<and>
      transform_data env data s1 = (Inr df, s2) \<and>
      (file_write env (opens s) (output_file env) = ParentMissing e \<or>
       file_write env (opens s) (output_file env) = OpenFails e) \<longrightarrow>
      fst (etl_process env s) = Inl e \<and>
      log (snd (etl_process env s)) = log s2 @ [ERROR ''Error in data loading: '' e] \<and>
      files (snd (etl_process env s)) = files s) \<and>
   (extract_data env (started env s) = (Inr data, s1) \<and>
      transform_data env data s1 = (Inr df, s2) \<and>
      file_write env (opens s) (output_file env) = WriteFails e n \<longrightarrow>
      fst (etl_process env s) = Inl e \<and>
      log (snd (etl_process env s)) = log s2 @ [ERROR ''Error in data loading: '' e] \<and>
      files (snd (etl_process env s)) =
        (files s)(output_file env \<mapsto> take n (csv_text env df))) \<and>
   (etl_process env s = (Inl e, s') \<longrightarrow> (\<exists>m. last (log s') = ERROR m e))"
proof (intro conjI impI)
  assume "http env (length (sent s)) (GET url params) = Inl e \<or>
     (\<exists>r. http env (length (sent s)) (GET url params) = Inr r \<and> raise_for_status r = Inl e) \<or>
     (\<exists>r. http env (length (sent s)) (GET url params) = Inr r \<and> raise_for_status r = Inr () \<and>
          response_json r = Inl e)"
  then show "etl_process env s =
        (Inl e, s\<lparr>ticks := Suc (ticks s), sent := sent s @ [GET url params],
                  log := log s @ [INFO ''ETL process started.'',
                                  ERROR ''Error in data extraction: '' e]\<rparr>)"
    by (rule etl_process_extract_raises)
next
  assume a: "extract_data env (started env s) = (Inr data, s1) \<and>
      DataFrame env data in_columns = Inl e"
  then have x: "extract_data env (started env s) = (Inr data, s1)"
    and d: "DataFrame env data in_columns = Inl e" by simp_all
  from etl_process_transform_Inl[OF x transform_data_raises[OF d]]
  show "etl_process env s =
        (Inl e, s1\<lparr>log := log s1 @ [ERROR ''Error in data transformation: '' e]\<rparr>)"
    by (simp add: logging_error_def)
  from extract_data_frame[OF x]
  show "files s1 = files s" "opens s1 = opens s" "stdout s1 = stdout s" by simp_all
next
  assume a: "extract_data env (started env s) = (Inr data, s1) \<and>
      transform_data env data s1 = (Inr df, s2) \<and>
      (file_write env (opens s) (output_file env) = ParentMissing e \<or>
       file_write env (opens s) (output_file env) = OpenFails e)"
  then have x: "extract_data env (started env s) = (Inr data, s1)"
    and t: "transform_data env data s1 = (Inr df, s2)"
    and w: "file_write env (opens s) (output_file env) = ParentMissing e \<or>
       file_write env (opens s) (output_file env) = OpenFails e" by simp_all
  from extract_data_frame[OF x] transform_data_frame[OF t]
  have o: "opens s2 = opens s" and f: "files s2 = files s" by simp_all
  from w o have w2: "file_write env (opens s2) (output_file env) = ParentMissing e \<or>
       file_write env (opens s2) (output_file env) = OpenFails e" by simp
  then have w3: "file_write env (opens s2) (output_file env) = ParentMissing e \<or>
       file_write env (opens s2) (output_file env) = OpenFails e \<or>
       (\<exists>n. file_write env (opens s2) (output_file env) = WriteFails e n)" by blast
  from load_data_raises[OF w3, of df]
  have l: "load_data env df s2 = (Inl e, snd (load_data env df s2))"
    and g: "log (snd (load_data env df s2)) = log s2 @ [ERROR ''Error in data loading: '' e]"
    by (simp_all add: prod_eq_iff)
  from etl_process_load_Inl[OF x t l] g load_data_files_unopened[OF w2, of df] f
  show "fst (etl_process env s) = Inl e"
    "log (snd (etl_process env s)) = log s2 @ [ERROR ''Error in data loading: '' e]"
    "files (snd (etl_process env s)) = files s"
    by simp_all
next
  assume a: "extract_data env (started env s) = (Inr data, s1) \<and>
      transform_data env data s1 = (Inr df, s2) \<and>
      file_write env (opens s) (output_file env) = WriteFails e n"
  then have x: "extract_data env (started env s) = (Inr data, s1)"
    and t: "transform_data env data s1 = (Inr df, s2)"
    and w: "file_write env (opens s) (output_file env) = WriteFails e n" by simp_all
  from extract_data_frame[OF x] transform_data_frame[OF t]
  have o: "opens s2 = opens s" and f: "files s2 = files s" by simp_all
  from w o have w2: "file_write env (opens s2) (output_file env) = WriteFails e n" by simp
  then have w3: "file_write env (opens s2) (output_file env) = ParentMissing e \<or>
       file_write env (opens s2) (output_file env) = OpenFails e \<or>
       (\<exists>n. file_write env (opens s2) (output_file env) = WriteFails e n)" by blast
  from load_data_raises[OF w3, of df]
  have l: "load_data env df s2 = (Inl e, snd (load_data env df s2))"
    and g: "log (snd (load_data env df s2)) = log s2 @ [ERROR ''Error in data loading: '' e]"
    by (simp_all add: prod_eq_iff)
  from etl_process_load_Inl[OF x t l] g load_data_files_WriteFails[OF w2, of df] f
  show "fst (etl_process env s) = Inl e"
    "log (snd (etl_process env s)) = log s2 @ [ERROR ''Error in data loading: '' e]"
    "files (snd (etl_process env s)) =
        (files s)(output_file env \<mapsto> take n (csv_text env df))"
    by simp_all
next
  assume "etl_process env s = (Inl e, s')"
  then show "\<exists>m. last (log s') = ERROR m e" by (rule etl_process_Inl_logged)
qed

theorem stage_failure_logged_and_propagated_witness:
  "files (snd (etl_process (example_env (Inl (RequestException ''unreachable'')) Written)
      example_state)) ''/app/data/crypto_data.csv'' = Some ''old'' \<and>
   (\<exists>m. last (log (snd (etl_process (example_env (Inl (RequestException ''unreachable'')) Written)
      example_state))) = ERROR m (RequestException ''unreachable'')) \<and>
   fst (etl_process (example_env (Inr \<lparr>status_code = 200, body = Some (PInt 5)\<rparr>) Written)
      example_state) = Inl (ValueError ''DataFrame constructor not properly called!'') \<and>
   files (snd (etl_process (example_env (Inr \<lparr>status_code = 200, body = Some (PInt 5)\<rparr>) Written)
      example_state)) ''/app/data/crypto_data.csv'' = Some ''old'' \<and>
   fst (etl_process (example_env (Inr \<lparr>status_code = 200, body = Some (PList [])\<rparr>)
        (OpenFails (OSError ''Permission denied'')))
      example_state) = Inl (OSError ''Permission denied'') \<and>
   files (snd (etl_process (example_env (Inr \<lparr>status_code = 200, body = Some (PList [])\<rparr>)
        (OpenFails (OSError ''Permission denied'')))
      example_state)) ''/app/data/crypto_data.csv'' = Some ''old'' \<and>
   fst (etl_process (example_env (Inr \<lparr>status_code = 200, body = Some (PList [])\<rparr>)
        (WriteFails (OSError ''No space left on device'') 12))
      example_state) = Inl (OSError ''No space left on device'') \<and>
   files (snd (etl_process (example_env (Inr \<lparr>status_code = 200, body = Some (PList [])\<rparr>)
        (WriteFails (OSError ''No space left on device'') 12))
      example_state)) ''/app/data/crypto_data.csv'' = Some ''crypto_name,''"
proof -
  let ?a = "example_env (Inl (RequestException ''unreachable'')) Written"
  let ?rb = "\<lparr>status_code = 200, body = Some (PInt 5)\<rparr>"
  let ?b = "example_env (Inr ?rb) Written"
  let ?rc = "\<lparr>status_code = 200, body = Some (PList [])\<rparr>"
  let ?c = "example_env (Inr ?rc) (OpenFails (OSError ''Permission denied''))"
  let ?d = "example_env (Inr ?rc) (WriteFails (OSError ''No space left on device'') 12)"
  let ?e = "RequestException ''unreachable''"
  let ?v = "ValueError ''DataFrame constructor not properly called!''"
  let ?o = "OSError ''Permission denied''"
  let ?n = "OSError ''No space left on device''"
  have f: "files example_state ''/app/data/crypto_data.csv'' = Some ''old''"
    by (simp add: example_state_def)
  \<comment> \<open>the request fails\<close>
  have a: "http ?a (length (sent example_state)) (GET url params) = Inl ?e"
    by (simp add: example_env_def)
  have ra: "etl_process ?a example_state =
     (Inl ?e, example_state\<lparr>ticks := Suc (ticks example_state),
        sent := sent example_state @ [GET url params],
        log := log example_state @ [INFO ''ETL process started.'',
                                    ERROR ''Error in data extraction: '' ?e]\<rparr>)"
    using stage_failure_logged_and_propagated[where env = ?a and s = example_state and e = ?e,
      THEN conjunct1] a by blast
  have a1: "files (snd (etl_process ?a example_state)) ''/app/data/crypto_data.csv'' = Some ''old''"
    by (simp add: ra f)
  have a2: "\<exists>m. last (log (snd (etl_process ?a example_state))) = ERROR m ?e"
    using stage_failure_logged_and_propagated[where env = ?a and s = example_state and e = ?e
      and s' = "snd (etl_process ?a example_state)",
      THEN conjunct2, THEN conjunct2, THEN conjunct2, THEN conjunct2]
      ra by simp
  \<comment> \<open>the DataFrame constructor raises\<close>
  let ?s1 = "logging_info ''Data extraction successful.''
        ((started ?b example_state)\<lparr>sent := sent example_state @ [GET url params]\<rparr>)"
  have hb: "http ?b (length (sent example_state)) (GET url params) = Inr ?rb"
    by (simp add: example_env_def)
  have sb: "raise_for_status ?rb = Inr ()" by (simp add: raise_for_status_def)
  have xb: "extract_data ?b (started ?b example_state) = (Inr (PInt 5), ?s1)"
    by (rule extract_data_ok[OF hb sb]) simp
  have db: "DataFrame ?b (PInt 5) in_columns = Inl ?v"
    by (simp add: DataFrame_def example_env_def)
  from stage_failure_logged_and_propagated[where env = ?b and s = example_state and e = ?v
      and data = "PInt 5" and ?s1.0 = ?s1, THEN conjunct2, THEN conjunct1] xb db
  have rb: "etl_process ?b example_state =
        (Inl ?v, ?s1\<lparr>log := log ?s1 @ [ERROR ''Error in data transformation: '' ?v]\<rparr>)"
    and fb: "files ?s1 = files example_state" by blast+
  have b1: "fst (etl_process ?b example_state) = Inl ?v" by (simp add: rb)
  have b2: "files (snd (etl_process ?b example_state)) ''/app/data/crypto_data.csv'' = Some ''old''"
    by (simp add: rb fb f)
  \<comment> \<open>the destination cannot be opened\<close>
  let ?df = "\<lparr>columns = price_row_fields, rows = []\<rparr>"
  let ?t1 = "logging_info ''Data extraction successful.''
        ((started ?c example_state)\<lparr>sent := sent example_state @ [GET url params]\<rparr>)"
  let ?t2 = "logging_info ''Data transformation successful.'' (?t1\<lparr>ticks := Suc (ticks ?t1)\<rparr>)"
  have hc: "http ?c (length (sent example_state)) (GET url params) = Inr ?rc"
    by (simp add: example_env_def)
  have sc: "raise_for_status ?rc = Inr ()" by (simp add: raise_for_status_def)
  have xc: "extract_data ?c (started ?c example_state) = (Inr (PList []), ?t1)"
    by (rule extract_data_ok[OF hc sc]) simp
  have tc: "transform_data ?c (PList []) ?t1 = (Inr ?df, ?t2)"
    using transform_data_records[of ?c "[]" ?t1] by simp
  have wc: "file_write ?c (opens example_state) (output_file ?c) = OpenFails ?o"
    by (simp add: example_env_def)
  from stage_failure_logged_and_propagated[where env = ?c and s = example_state and e = ?o
      and data = "PList []" and ?s1.0 = ?t1 and df = ?df and ?s2.0 = ?t2,
      THEN conjunct2, THEN conjunct2, THEN conjunct1] xc tc wc
  have c1: "fst (etl_process ?c example_state) = Inl ?o"
    and c2: "files (snd (etl_process ?c example_state)) = files example_state" by blast+
  have c3: "files (snd (etl_process ?c example_state)) ''/app/data/crypto_data.csv'' = Some ''old''"
    by (simp add: c2 f)
  \<comment> \<open>a write fails after the open\<close>
  let ?u1 = "logging_info ''Data extraction successful.''
        ((started ?d example_state)\<lparr>sent := sent example_state @ [GET url params]\<rparr>)"
  let ?u2 = "logging_info ''Data transformation successful.'' (?u1\<lparr>ticks := Suc (ticks ?u1)\<rparr>)"
  have hd: "http ?d (length (sent example_state)) (GET url params) = Inr ?rc"
    by (simp add: example_env_def)
  have xd: "extract_data ?d (started ?d example_state) = (Inr (PList []), ?u1)"
    by (rule extract_data_ok[OF hd sc]) simp
  have td: "transform_data ?d (PList []) ?u1 = (Inr ?df, ?u2)"
    using transform_data_records[of ?d "[]" ?u1] by simp
  have wd: "file_write ?d (opens example_state) (output_file ?d) = WriteFails ?n 12"
    by (simp add: example_env_def)
  from stage_failure_logged_and_propagated[where env = ?d and s = example_state and e = ?n
      and data = "PList []" and ?s1.0 = ?u1 and df = ?df and ?s2.0 = ?u2 and n = 12,
      THEN conjunct2, THEN conjunct2, THEN conjunct2, THEN conjunct1] xd td wd
  have d1: "fst (etl_process ?d example_state) = Inl ?n"
    and d2: "files (snd (etl_process ?d example_state)) =
        (files example_state)(output_file ?d \<mapsto> take 12 (csv_text ?d ?df))" by blast+
  have "take 12 (csv_text ?d ?df) = ''crypto_name,''"
    by (simp add: csv_text_def csv_line_price_row_fields)
  then have d3: "files (snd (etl_process ?d example_state)) ''/app/data/crypto_data.csv'' =
      Some ''crypto_name,''"
    by (simp add: d2 example_output_file)
  from a1 a2 b1 b2 c1 c3 d1 d3 show ?thesis by blast
qed

text \<open>
  Claim C6 says that the Fetcher fails whenever the HTTP status is not 2xx.
  \<^verbatim>\<open>raise_for_status\<close> raises for the statuses 400 to 599 only: a response with status
  300 and a well-formed JSON body is accepted, and the run goes on to write the file.
\<close>

theorem status_300_is_accepted:
  "fst (extract_data (example_env (Inr \<lparr>status_code = 300, body = Some (PList [])\<rparr>) Written)
         example_state) = Inr (PList []) \<and>
   fst (etl_process (example_env (Inr \<lparr>status_code = 300, body = Some (PList [])\<rparr>) Written)
         example_state) = Inr ()"
proof -
  let ?r = "\<lparr>status_code = 300, body = Some (PList [])\<rparr>"
  let ?env = "example_env (Inr ?r) Written"
  have h: "http ?env (length (sent s)) (GET url params) = Inr ?r" for s
    by (simp add: example_env_def)
  have s: "raise_for_status ?r = Inr ()" by (simp add: raise_for_status_def)
  have j: "response_json ?r = Inr (PList [])" by (simp add: response_json_def)
  have b: "body ?r = Some (PList (map PDict []))" by simp
  have w: "file_write ?env (opens example_state) (output_file ?env) = Written"
    by (simp add: example_env_def)
  have "fst (extract_data ?env example_state) = Inr (PList [])"
    by (simp add: extract_data_def extract_try_ok[OF h s j])
  with etl_process_records_Written[OF h s b w] show ?thesis by simp
qed

text \<open>
  Claim C6, as amended. When the request fails, or the status is a client or server
  error (400 to 599), or the status is outside that range and the body is not well-formed
  JSON, the Fetcher fails with the underlying exception (that of the request, an
  \<^verbatim>\<open>HTTPError\<close> of the status, a \<^verbatim>\<open>JSONDecodeError\<close>); the failure is logged at
  ERROR level before it propagates; the run ends with that exception, no file opened or
  changed; exactly one request has been made (no retry) and no data is returned.
\<close>

theorem fetch_failure_aborts:
  assumes "http env (length (sent s)) (GET url params) = Inl e \<or>
     (\<exists>r. http env (length (sent s)) (GET url params) = Inr r \<and>
          400 \<le> status_code r \<and> status_code r < 600 \<and> e = HTTPError (status_code r)) \<or>
     (\<exists>r. http env (length (sent s)) (GET url params) = Inr r \<and>
          (status_code r < 400 \<or> 600 \<le> status_code r) \<and> body r = None \<and> e = JSONDecodeError)"
  shows "extract_data env s =
      (Inl e, s\<lparr>sent := sent s @ [GET url params],
                log := log s @ [ERROR ''Error in data extraction: '' e]\<rparr>) \<and>
    etl_process env s =
      (Inl e, s\<lparr>ticks := Suc (ticks s), sent := sent s @ [GET url params],
                log := log s @ [INFO ''ETL process started.'',
                                ERROR ''Error in data extraction: '' e]\<rparr>)"
proof -
  from assms have "http env (length (sent s)) (GET url params) = Inl e \<or>
     (\<exists>r. http env (length (sent s)) (GET url params) = Inr r \<and> raise_for_status r = Inl e) \<or>
     (\<exists>r. http env (length (sent s)) (GET url params) = Inr r \<and> raise_for_status r = Inr () \<and>
          response_json r = Inl e)"
    using raise_for_status_Inl raise_for_status_Inr
    by (fastforce simp: response_json_def)
  then show ?thesis
    using extract_data_raises etl_process_extract_raises by blast
qed

theorem fetch_failure_aborts_witness:
  "etl_process (example_env (Inl (RequestException ''unreachable'')) Written) example_state =
     (Inl (RequestException ''unreachable''),
      example_state\<lparr>ticks := 1, sent := [GET url params],
        log := [INFO ''ETL process started.'',
                ERROR ''Error in data extraction: '' (RequestException ''unreachable'')]\<rparr>) \<and>
   fst (extract_data (example_env (Inr \<lparr>status_code = 500, body = Some (PList [])\<rparr>) Written)
     example_state) = Inl (HTTPError 500) \<and>
   fst (extract_data (example_env (Inr \<lparr>status_code = 200, body = None\<rparr>) Written)
     example_state) = Inl JSONDecodeError"
proof -
  let ?a = "example_env (Inl (RequestException ''unreachable'')) Written"
  let ?b = "example_env (Inr \<lparr>status_code = 500, body = Some (PList [])\<rparr>) Written"
  let ?c = "example_env (Inr \<lparr>status_code = 200, body = None\<rparr>) Written"
  have a: "http ?a (length (sent example_state)) (GET url params) =
      Inl (RequestException ''unreachable'')"
    by (simp add: example_env_def)
  have b: "\<exists>r. http ?b (length (sent example_state)) (GET url params) = Inr r \<and>
      400 \<le> status_code r \<and> status_code r < 600 \<and> HTTPError 500 = HTTPError (status_code r)"
    by (simp add: example_env_def)
  have c: "\<exists>r. http ?c (length (sent example_state)) (GET url params) = Inr r \<and>
      (status_code r < 400 \<or> 600 \<le> status_code r) \<and> body r = None \<and>
      JSONDecodeError = JSONDecodeError"
    by (simp add: example_env_def)
  have "etl_process ?a example_state =
     (Inl (RequestException ''unreachable''),
      example_state\<lparr>ticks := 1, sent := [GET url params],
        log := [INFO ''ETL process started.'',
                ERROR ''Error in data extraction: '' (RequestException ''unreachable'')]\<rparr>)"
    using fetch_failure_aborts[of ?a example_state "RequestException ''unreachable''"] a
    by (simp add: example_state_def)
  moreover have "fst (extract_data ?b example_state) = Inl (HTTPError 500)"
    using fetch_failure_aborts[of ?b example_state "HTTPError 500"] b by simp
  moreover have "fst (extract_data ?c example_state) = Inl JSONDecodeError"
    using fetch_failure_aborts[of ?c example_state JSONDecodeError] c by simp
  ultimately show ?thesis by blast
qed

subsection \<open>The file of the Writer\<close>

text \<open>
  Claim C7. A write that succeeds replaces the content of the destination file by the
  CSV text of the rows of this run, whether the file existed or not and whatever it held:
  nothing of the earlier content is kept, and no other file changes.
\<close>

theorem load_data_replaces_file:
  assumes "file_write env (opens s) (output_file env) = Written"
  shows "fst (load_data env df s) = Inr () \<and>
    files (snd (load_data env df s)) = (files s)(output_file env \<mapsto> csv_text env df)"
  by (simp add: load_data_Written[OF assms] print_def logging_info_def)

theorem load_data_replaces_file_witness:
  "file_write (example_env (Inl (RequestException ''unreachable'')) Written) (opens example_state)
     (output_file (example_env (Inl (RequestException ''unreachable'')) Written)) = Written \<and>
   files example_state ''/app/data/crypto_data.csv'' = Some ''old'' \<and>
   files (snd (load_data (example_env (Inl (RequestException ''unreachable'')) Written)
       \<lparr>columns = price_row_fields, rows = [[PStr ''bitcoin'', PStr ''btc'', PInt 65000,
           PInt 1200000000000, PInt 30000000000, PStr ''2024-05-17 09:30:00'']]\<rparr>
       example_state)) ''/app/data/crypto_data.csv'' =
     Some (''crypto_name,symbol,price_usd,market_cap_usd,volume_usd,timestamp'' @ [CHR 0x0A] @
           ''bitcoin,btc,65000,1200000000000,30000000000,2024-05-17 09:30:00'' @ [CHR 0x0A])"
proof -
  let ?env = "example_env (Inl (RequestException ''unreachable'')) Written"
  have w: "file_write ?env (opens example_state) (output_file ?env) = Written"
    by (simp add: example_env_def)
  from load_data_replaces_file[OF w] w show ?thesis
    by (simp add: example_csv_bitcoin example_output_file) (simp add: example_state_def)
qed

text \<open>
  Claim C9. Writing the same rows twice to the destination leaves the same content
  after the second write as after the first: the CSV text of the rows.
\<close>

theorem load_data_twice_same_content:
  assumes "load_data env df s = (Inr (), s1)" and "load_data env df s1 = (Inr (), s2)"
  shows "files s1 (output_file env) = Some (csv_text env df) \<and>
         files s2 (output_file env) = files s1 (output_file env) \<and> files s2 = files s1"
proof -
  from assms(1) have w1: "file_write env (opens s) (output_file env) = Written"
    by (rule load_data_Inr)
  from assms(2) have w2: "file_write env (opens s1) (output_file env) = Written"
    by (rule load_data_Inr)
  from assms(1) have f1: "files s1 = (files s)(output_file env \<mapsto> csv_text env df)"
    by (auto simp: load_data_Written[OF w1] print_def logging_info_def)
  from assms(2) have f2: "files s2 = (files s1)(output_file env \<mapsto> csv_text env df)"
    by (auto simp: load_data_Written[OF w2] print_def logging_info_def)
  show ?thesis by (simp add: f1 f2)
qed

theorem load_data_twice_same_content_witness:
  "fst (load_data (example_env (Inl (RequestException ''unreachable'')) Written)
         \<lparr>columns = price_row_fields, rows = [[PStr ''bitcoin'', PStr ''btc'', PInt 65000,
           PInt 1200000000000, PInt 30000000000, PStr ''2024-05-17 09:30:00'']]\<rparr>
         example_state) = Inr () \<and>
   files (snd (load_data (example_env (Inl (RequestException ''unreachable'')) Written)
         \<lparr>columns = price_row_fields, rows = [[PStr ''bitcoin'', PStr ''btc'', PInt 65000,
           PInt 1200000000000, PInt 30000000000, PStr ''2024-05-17 09:30:00'']]\<rparr>
         example_state))
     ''/app/data/crypto_data.csv'' =
     Some (''crypto_name,symbol,price_usd,market_cap_usd,volume_usd,timestamp'' @ [CHR 0x0A] @
           ''bitcoin,btc,65000,1200000000000,30000000000,2024-05-17 09:30:00'' @ [CHR 0x0A]) \<and>
   files (snd (load_data (example_env (Inl (RequestException ''unreachable'')) Written)
         \<lparr>columns = price_row_fields, rows = [[PStr ''bitcoin'', PStr ''btc'', PInt 65000,
           PInt 1200000000000, PInt 30000000000, PStr ''2024-05-17 09:30:00'']]\<rparr>
         (snd (load_data (example_env (Inl (RequestException ''unreachable'')) Written)
            \<lparr>columns = price_row_fields, rows = [[PStr ''bitcoin'', PStr ''btc'', PInt 65000,
              PInt 1200000000000, PInt 30000000000, PStr ''2024-05-17 09:30:00'']]\<rparr>
            example_state))))
     ''/app/data/crypto_data.csv'' =
     Some (''crypto_name,symbol,price_usd,market_cap_usd,volume_usd,timestamp'' @ [CHR 0x0A] @
           ''bitcoin,btc,65000,1200000000000,30000000000,2024-05-17 09:30:00'' @ [CHR 0x0A])"
proof -
  let ?env = "example_env (Inl (RequestException ''unreachable'')) Written"
  let ?df = "\<lparr>columns = price_row_fields, rows = [[PStr ''bitcoin'', PStr ''btc'', PInt 65000,
           PInt 1200000000000, PInt 30000000000, PStr ''2024-05-17 09:30:00'']]\<rparr>"
  let ?s1 = "snd (load_data ?env ?df example_state)"
  let ?s2 = "snd (load_data ?env ?df ?s1)"
  let ?text = "''crypto_name,symbol,price_usd,market_cap_usd,volume_usd,timestamp'' @ [CHR 0x0A] @
           ''bitcoin,btc,65000,1200000000000,30000000000,2024-05-17 09:30:00'' @ [CHR 0x0A]"
  have w: "file_write ?env n (output_file ?env) = Written" for n
    by (simp add: example_env_def)
  have f1: "fst (load_data ?env ?df example_state) = Inr ()"
    by (simp add: load_data_Written[OF w])
  have a1: "load_data ?env ?df example_state = (Inr (), ?s1)"
    using f1 by (simp add: prod_eq_iff)
  have "fst (load_data ?env ?df ?s1) = Inr ()"
    by (simp add: load_data_Written[OF w])
  then have a2: "load_data ?env ?df ?s1 = (Inr (), ?s2)"
    by (simp add: prod_eq_iff)
  from load_data_twice_same_content[OF a1 a2]
  have "files ?s1 (output_file ?env) = Some (csv_text ?env ?df)"
    and "files ?s2 (output_file ?env) = files ?s1 (output_file ?env)" by blast+
  then have "files ?s1 ''/app/data/crypto_data.csv'' = Some ?text"
    and "files ?s2 ''/app/data/crypto_data.csv'' = Some ?text"
    by (simp_all only: example_output_file example_csv_bitcoin)
  with f1 show ?thesis by blast
qed

subsection \<open>The request of the Fetcher\<close>

text \<open>
  Claim C8. Every call of \<^verbatim>\<open>extract_data\<close> makes exactly one call of \<^verbatim>\<open>requests.get\<close>,
  whether it succeeds or fails: to the fixed endpoint, with the five query parameters
  \<^verbatim>\<open>vs_currency=usd\<close>, \<^verbatim>\<open>order=market_cap_desc\<close>, \<^verbatim>\<open>per_page=10\<close>, \<^verbatim>\<open>page=1\<close>,
  \<^verbatim>\<open>sparkline=false\<close> and no other. The request is the same in every environment and
  every state: nothing the program reads influences it. (The count is of the calls the
  program makes; redirects the library follows inside one call are not modelled.)
\<close>

theorem extract_data_one_fixed_request:
  "sent (snd (extract_data env s)) =
     sent s @
     [GET ''https://api.coingecko.com/api/v3/coins/markets''
        [(''vs_currency'', PStr ''usd''), (''order'', PStr ''market_cap_desc''),
         (''per_page'', PInt 10), (''page'', PInt 1), (''sparkline'', PStr ''false'')]]"
proof -
  obtain r s' where t: "extract_try env s = (r, s')" by (cases "extract_try env s")
  from extract_try_frame[OF t] have "sent s' = sent s @ [GET url params]" by simp
  moreover have "sent (snd (extract_data env s)) = sent s'"
    by (cases r) (simp_all add: extract_data_def t logging_error_def)
  ultimately show ?thesis by (simp add: url_def params_def)
qed

subsection \<open>An empty result\<close>

text \<open>
  Claim C10. On the empty list the Transformer succeeds with zero rows, the CSV text of
  its output is the header line alone, and a run whose request delivered the empty list
  succeeds and leaves the destination file holding the header line only (the destination
  being writable).
\<close>

theorem empty_input_header_only:
  assumes "http env (length (sent s)) (GET url params) = Inr r"
    and "status_code r < 400 \<or> 600 \<le> status_code r"
    and "body r = Some (PList [])"
    and "file_write env (opens s) (output_file env) = Written"
  shows "(\<exists>s1. transform_data env (PList []) s0 =
             (Inr \<lparr>columns = price_row_fields, rows = []\<rparr>, s1)) \<and>
    csv_text env \<lparr>columns = price_row_fields, rows = []\<rparr> =
      ''crypto_name,symbol,price_usd,market_cap_usd,volume_usd,timestamp'' @ os_linesep env \<and>
    fst (etl_process env s) = Inr () \<and>
    files (snd (etl_process env s)) =
      (files s)(output_file env \<mapsto>
        ''crypto_name,symbol,price_usd,market_cap_usd,volume_usd,timestamp'' @ os_linesep env)"
proof -
  have t: "\<exists>s1. transform_data env (PList []) s0 =
             (Inr \<lparr>columns = price_row_fields, rows = []\<rparr>, s1)"
    using transform_data_records[of env "[]" s0] by simp
  have c: "csv_text env \<lparr>columns = price_row_fields, rows = []\<rparr> =
      ''crypto_name,symbol,price_usd,market_cap_usd,volume_usd,timestamp'' @ os_linesep env"
    by (simp add: csv_text_def csv_line_price_row_fields)
  have b: "body r = Some (PList (map PDict []))" using assms(3) by simp
  from etl_process_records_Written[OF assms(1) raise_for_status_Inr[OF assms(2)] b assms(4)]
  have "fst (etl_process env s) = Inr () \<and>
    files (snd (etl_process env s)) =
      (files s)(output_file env \<mapsto> csv_text env \<lparr>columns = price_row_fields, rows = []\<rparr>)"
    by simp
  with t c show ?thesis by simp
qed

theorem empty_input_header_only_witness:
  "fst (etl_process (example_env (Inr \<lparr>status_code = 200, body = Some (PList [])\<rparr>) Written)
          example_state) = Inr () \<and>
   files (snd (etl_process (example_env (Inr \<lparr>status_code = 200, body = Some (PList [])\<rparr>) Written)
          example_state)) ''/app/data/crypto_data.csv'' =
     Some (''crypto_name,symbol,price_usd,market_cap_usd,volume_usd,timestamp'' @ [CHR 0x0A])"
proof -
  let ?r = "\<lparr>status_code = 200, body = Some (PList [])\<rparr>"
  let ?env = "example_env (Inr ?r) Written"
  have h: "http ?env (length (sent example_state)) (GET url params) = Inr ?r"
    by (simp add: example_env_def)
  have s: "status_code ?r < 400 \<or> 600 \<le> status_code ?r" by simp
  have b: "body ?r = Some (PList [])" by simp
  have w: "file_write ?env (opens example_state) (output_file ?env) = Written"
    by (simp add: example_env_def)
  have l: "os_linesep ?env = [CHR 0x0A]" by (simp add: example_env_def)
  from empty_input_header_only[OF h s b w] show ?thesis
    by (simp add: example_output_file l)
qed

end
